theory Spec2Isabelle
  imports Main
begin

section \<open>Values\<close>

text \<open>
  A structured payload: \<^verbatim>\<open>null\<close>, a boolean, an integer, a string, an array, or an
  object, which is the list of its properties in creation order.
\<close>

datatype json =
    JNull
  | JBool bool
  | JNumber int
  | JString string
  | JArray "json list"
  | JObject "(string \<times> json) list"

text \<open>
  \<^verbatim>\<open>CreateDataProperty\<close>: a key that the object already has keeps its place and takes the
  new value.
\<close>

fun CreateDataProperty :: "string \<Rightarrow> json \<Rightarrow> (string \<times> json) list \<Rightarrow> (string \<times> json) list" where
  "CreateDataProperty k v [] = [(k, v)]"
| "CreateDataProperty k v (p # ps) =
     (if fst p = k then (k, v) # ps else p # CreateDataProperty k v ps)"

text \<open>
  A property of an options object is absent, present with the value \<^verbatim>\<open>undefined\<close>, or
  present with a value. Reading an absent property gives \<^verbatim>\<open>undefined\<close>; spreading
  \<^verbatim>\<open>{...a, ...b}\<close> takes every property that \<open>b\<close> has, whatever its value, and the
  others from \<open>a\<close>.
\<close>

datatype 'a optional = Absent | Undef | Val 'a

definition read_prop :: "'a optional \<Rightarrow> 'a optional" where
  "read_prop p = (case p of Absent \<Rightarrow> Undef | _ \<Rightarrow> p)"

definition spread_prop :: "'a optional \<Rightarrow> 'a optional \<Rightarrow> 'a optional" where
  "spread_prop a b = (case b of Absent \<Rightarrow> a | _ \<Rightarrow> b)"


section \<open>Thrown values and the error normalizer (error.utils.ts)\<close>

text \<open>
  A \<^verbatim>\<open>catch\<close> clause receives a value of type \<^verbatim>\<open>unknown\<close>. \<^verbatim>\<open>normalizeError\<close>
  distinguishes four shapes of it, and so does the model: an instance of \<^verbatim>\<open>Error\<close>
  (its message and its stack, which may be undefined), any other object with a string
  \<^verbatim>\<open>message\<close> (and its \<^verbatim>\<open>stack\<close> when that is a string), any other value that
  \<^verbatim>\<open>String\<close> renders, and a value on which \<^verbatim>\<open>String\<close> itself throws.
\<close>

datatype thrown =
    ErrorInstance string "string option"
  | ErrorShaped string "string option"
  | OtherValue string
  | Unstringifiable

record NormalizedError =
  message :: string
  stack :: "string option"

fun normalizeError :: "thrown \<Rightarrow> NormalizedError" where
  "normalizeError (ErrorInstance m s) = \<lparr>message = m, stack = s\<rparr>"
| "normalizeError (ErrorShaped m s) = \<lparr>message = m, stack = s\<rparr>"
| "normalizeError (OtherValue rendered) = \<lparr>message = rendered, stack = None\<rparr>"
| "normalizeError Unstringifiable =
     \<lparr>message = ''An unstringifiable error occurred'', stack = None\<rparr>"

text \<open>
  \<^verbatim>\<open>new Error(m)\<close>: the engine's stack text begins with the line \<^verbatim>\<open>Error: m\<close>; the
  frames that follow it are left out.
\<close>

definition new_Error :: "string \<Rightarrow> thrown" where
  "new_Error m = ErrorInstance m (Some (''Error: '' @ m))"

section \<open>Messages and handlers\<close>

type_synonym bytes = string

record Message =
  msg_id :: string
  msg_data :: bytes
  msg_attributes :: "(string \<times> string) list"

text \<open>The two calls the raw message handle offers, and who issued a call.\<close>

datatype msg_call = Ack | Nack

datatype issuer = Core | Handler

text \<open>
  A handler is user code. One run of it on a payload and a message makes some calls on
  the message handle, in order, and then completes (\<open>None\<close>) or throws or rejects with a
  value. A handler that never settles is not a run: the callback awaits it and does
  nothing further. The logger and the message handle are taken not to throw.
\<close>

record handler_run =
  run_calls :: "msg_call list"
  run_failure :: "thrown option"

type_synonym 'p handler = "'p \<Rightarrow> Message \<Rightarrow> handler_run"

text \<open>
  The payload parser: \<^verbatim>\<open>parsePayload\<close> of the base listener (a protected method a
  subclass may override), \<^verbatim>\<open>JSON.parse(message.data.toString())\<close> in the explorer. It is
  a parameter of the message callbacks; the platform's parser is modelled further below.
\<close>

type_synonym 'p parser = "bytes \<Rightarrow> thrown + 'p"

subsection \<open>The logger\<close>

datatype level = LOG | WARN | ERROR

text \<open>The object the publisher logs with its lines.\<close>

record log_metadata =
  meta_topicName :: string
  meta_attributes :: "(string \<times> string) list"
  meta_payloadSize :: nat
  meta_payload :: "json option"
  meta_messageId :: "string option"

datatype log_param = Str string | Undefined | Caught thrown | Meta log_metadata

record log_entry =
  entry_level :: level
  entry_message :: string
  entry_params :: "log_param list"

definition stack_param :: "NormalizedError \<Rightarrow> log_param" where
  "stack_param n = (case stack n of None \<Rightarrow> Undefined | Some s \<Rightarrow> Str s)"

text \<open>What one delivery of a message did.\<close>

record 'p delivery =
  invocations :: "('p \<times> Message) list"
  calls_on_message :: "(issuer \<times> msg_call) list"
  logged :: "log_entry list"
  propagated :: "thrown option"

definition by_issuer :: "issuer \<Rightarrow> (issuer \<times> msg_call) list \<Rightarrow> msg_call list" where
  "by_issuer who cs = map snd (filter (\<lambda>c. fst c = who) cs)"

section \<open>The message callback of the base listener (pubsub-base.listener.ts)\<close>

definition onMessage ::
  "string \<Rightarrow> 'p parser \<Rightarrow> 'p handler \<Rightarrow> Message \<Rightarrow> 'p delivery" where
  "onMessage className parsePayload handlePayload msg =
     (case parsePayload (msg_data msg) of
        Inl error \<Rightarrow>
          \<lparr>invocations = [],
           calls_on_message = [(Core, Nack)],
           logged = [\<lparr>entry_level = ERROR,
             entry_message = ''Failed to parse Pub/Sub message data. Message will be nacked.'',
             entry_params = [stack_param (normalizeError error), Str className]\<rparr>],
           propagated = None\<rparr>
      | Inr parsedPayload \<Rightarrow>
          (let run = handlePayload parsedPayload msg in
           case run_failure run of
             None \<Rightarrow>
               \<lparr>invocations = [(parsedPayload, msg)],
                calls_on_message = map (Pair Handler) (run_calls run),
                logged = [],
                propagated = None\<rparr>
           | Some error \<Rightarrow>
               \<lparr>invocations = [(parsedPayload, msg)],
                calls_on_message = map (Pair Handler) (run_calls run) @ [(Core, Nack)],
                logged = [\<lparr>entry_level = ERROR,
                  entry_message = ''Error handling message: '' @ message (normalizeError error),
                  entry_params = [stack_param (normalizeError error), Str className]\<rparr>],
                propagated = None\<rparr>))"

text \<open>
  The callback \<^verbatim>\<open>listenForMessages\<close> registers for the \<^verbatim>\<open>message\<close> event: it awaits
  \<^verbatim>\<open>onMessage\<close> and has a catch of its own, which logs and nacks.
\<close>

definition listenForMessages_callback ::
  "string \<Rightarrow> 'p parser \<Rightarrow> 'p handler \<Rightarrow> Message \<Rightarrow> 'p delivery" where
  "listenForMessages_callback className parsePayload handlePayload msg =
     (let d = onMessage className parsePayload handlePayload msg in
      case propagated d of
        None \<Rightarrow> d
      | Some error \<Rightarrow>
          d\<lparr>calls_on_message := calls_on_message d @ [(Core, Nack)],
            logged := logged d @ [\<lparr>entry_level = ERROR,
              entry_message = ''Error handling message '' @ msg_id msg @ '':'',
              entry_params = [Caught error]\<rparr>],
            propagated := None\<rparr>)"

section \<open>The message callback of the explorer (pubsub-explorer.service.ts)\<close>

text \<open>
  One \<^verbatim>\<open>try\<close> block holds the parse and the handler call; its \<^verbatim>\<open>catch\<close> logs the
  normalized error and nacks.
\<close>

definition setupHandler_callback ::
  "string \<Rightarrow> 'p parser \<Rightarrow> 'p handler \<Rightarrow> Message \<Rightarrow> 'p delivery" where
  "setupHandler_callback instanceName parse handle msg =
     (let failed = (\<lambda>err.
        \<lparr>entry_level = ERROR,
         entry_message = ''Handler '' @ instanceName @ '' failed: '' @ message (normalizeError err),
         entry_params = [stack_param (normalizeError err), Str ''PubSubExplorer'']\<rparr>) in
      case parse (msg_data msg) of
        Inl err \<Rightarrow>
          \<lparr>invocations = [],
           calls_on_message = [(Core, Nack)],
           logged = [failed err],
           propagated = None\<rparr>
      | Inr payload \<Rightarrow>
          (let run = handle payload msg in
           case run_failure run of
             None \<Rightarrow>
               \<lparr>invocations = [(payload, msg)],
                calls_on_message = map (Pair Handler) (run_calls run),
                logged = [],
                propagated = None\<rparr>
           | Some err \<Rightarrow>
               \<lparr>invocations = [(payload, msg)],
                calls_on_message = map (Pair Handler) (run_calls run) @ [(Core, Nack)],
                logged = [failed err],
                propagated = None\<rparr>))"

section \<open>The platform's JSON functions\<close>

text \<open>
  \<^verbatim>\<open>JSON.stringify\<close> and \<^verbatim>\<open>JSON.parse\<close> belong to the JavaScript engine, not to the
  repository. They are modelled on JSON texts over ASCII whose numbers are integer
  literals. On every text of that fragment \<open>JSON_parse\<close> follows the JSON grammar
  (ECMA-404). A number literal with a fraction or an exponent, and an escape \<^verbatim>\<open>\uXXXX\<close>
  above \<^verbatim>\<open>\u007f\<close>, denote values the model does not have; \<open>JSON_parse\<close> reports a
  syntax error for them. The message callbacks above take their parser as a parameter, so
  nothing proved about them rests on this restriction. The properties of an object are
  kept in the order of the list; that an engine enumerates integer-like keys first is
  not modelled, and has no bearing on which properties an object has.
\<close>

subsection \<open>\<^verbatim>\<open>JSON.stringify\<close>\<close>

definition dquote :: char where
  "dquote = CHR 0x22"

definition backslash :: char where
  "backslash = CHR 0x5C"

definition digit_char :: "nat \<Rightarrow> char" where
  "digit_char d = char_of (of_char CHR ''0'' + d)"

fun nat_digits :: "nat \<Rightarrow> string" where
  "nat_digits n = (if n < 10 then [digit_char n] else nat_digits (n div 10) @ [digit_char (n mod 10)])"

declare nat_digits.simps [simp del]

definition Number_toString :: "int \<Rightarrow> string" where
  "Number_toString i = (if i < 0 then CHR ''-'' # nat_digits (nat (- i)) else nat_digits (nat i))"

definition hex_char :: "nat \<Rightarrow> char" where
  "hex_char d = (if d < 10 then digit_char d else char_of (of_char CHR ''a'' + (d - 10)))"

text \<open>
  \<^verbatim>\<open>QuoteJSONString\<close>: the two-character escapes of the table, \<^verbatim>\<open>\u00XX\<close> in lower-case
  hexadecimal for the other control characters, every other character as it is.
\<close>

definition quote_char :: "char \<Rightarrow> string" where
  "quote_char c =
     (if c = CHR 0x08 then [backslash, CHR ''b'']
      else if c = CHR 0x09 then [backslash, CHR ''t'']
      else if c = CHR 0x0A then [backslash, CHR ''n'']
      else if c = CHR 0x0C then [backslash, CHR ''f'']
      else if c = CHR 0x0D then [backslash, CHR ''r'']
      else if c = dquote then [backslash, dquote]
      else if c = backslash then [backslash, backslash]
      else if (of_char c :: nat) < 0x20 then
        [backslash, CHR ''u'', CHR ''0'', CHR ''0'',
         hex_char (of_char c div 16), hex_char (of_char c mod 16)]
      else [c])"

definition QuoteJSONString :: "string \<Rightarrow> string" where
  "QuoteJSONString s = dquote # concat (map quote_char s) @ [dquote]"

fun comma_join :: "string list \<Rightarrow> string" where
  "comma_join [] = []"
| "comma_join [x] = x"
| "comma_join (x # y # ys) = x @ CHR '','' # comma_join (y # ys)"

fun JSON_stringify :: "json \<Rightarrow> string" where
  "JSON_stringify JNull = ''null''"
| "JSON_stringify (JBool b) = (if b then ''true'' else ''false'')"
| "JSON_stringify (JNumber i) = Number_toString i"
| "JSON_stringify (JString s) = QuoteJSONString s"
| "JSON_stringify (JArray vs) = CHR ''['' # comma_join (map JSON_stringify vs) @ '']''"
| "JSON_stringify (JObject ps) =
     CHR ''{'' # comma_join (map (\<lambda>p. QuoteJSONString (fst p) @ CHR '':'' # JSON_stringify (snd p)) ps) @ ''}''"

subsection \<open>\<^verbatim>\<open>JSON.parse\<close>: the tokens\<close>

datatype token =
    LBrace | RBrace | LBracket | RBracket | Colon | Comma
  | TString string | TNumber int | TTrue | TFalse | TNull

definition is_ws :: "char \<Rightarrow> bool" where
  "is_ws c = (c = CHR 0x20 \<or> c = CHR 0x09 \<or> c = CHR 0x0A \<or> c = CHR 0x0D)"

definition is_digit :: "char \<Rightarrow> bool" where
  "is_digit c = ((of_char CHR ''0'' :: nat) \<le> of_char c \<and> (of_char c :: nat) \<le> of_char CHR ''9'')"

definition digit_val :: "char \<Rightarrow> nat" where
  "digit_val c = of_char c - of_char CHR ''0''"

definition hex_val :: "char \<Rightarrow> nat option" where
  "hex_val c =
     (if is_digit c then Some (digit_val c)
      else if (of_char CHR ''a'' :: nat) \<le> of_char c \<and> (of_char c :: nat) \<le> of_char CHR ''f''
        then Some (of_char c - of_char CHR ''a'' + 10)
      else if (of_char CHR ''A'' :: nat) \<le> of_char c \<and> (of_char c :: nat) \<le> of_char CHR ''F''
        then Some (of_char c - of_char CHR ''A'' + 10)
      else None)"

definition hex4 :: "char \<Rightarrow> char \<Rightarrow> char \<Rightarrow> char \<Rightarrow> nat option" where
  "hex4 a b c d =
     (case (hex_val a, hex_val b, hex_val c, hex_val d) of
        (Some w, Some x, Some y, Some z) \<Rightarrow> Some (((w * 16 + x) * 16 + y) * 16 + z)
      | _ \<Rightarrow> None)"

definition unescape :: "char \<Rightarrow> char option" where
  "unescape e =
     (if e = dquote then Some dquote
      else if e = backslash then Some backslash
      else if e = CHR ''/'' then Some CHR ''/''
      else if e = CHR ''b'' then Some (CHR 0x08)
      else if e = CHR ''f'' then Some (CHR 0x0C)
      else if e = CHR ''n'' then Some (CHR 0x0A)
      else if e = CHR ''r'' then Some (CHR 0x0D)
      else if e = CHR ''t'' then Some (CHR 0x09)
      else None)"

text \<open>
  An escape sequence after its backslash: the character it denotes and the text after it.
\<close>

definition lex_unicode :: "string \<Rightarrow> (char \<times> string) option" where
  "lex_unicode s =
     (case s of
        h1 # h2 # h3 # h4 # rest \<Rightarrow>
          (case hex4 h1 h2 h3 h4 of
             Some n \<Rightarrow> if n < 0x80 then Some (char_of n, rest) else None
           | None \<Rightarrow> None)
      | _ \<Rightarrow> None)"

definition lex_escape :: "string \<Rightarrow> (char \<times> string) option" where
  "lex_escape s =
     (case s of
        [] \<Rightarrow> None
      | e # es \<Rightarrow>
          (case unescape e of
             Some d \<Rightarrow> Some (d, es)
           | None \<Rightarrow> if e = CHR ''u'' then lex_unicode es else None))"

lemma lex_unicode_shorter: "lex_unicode s = Some (d, rest) \<Longrightarrow> length rest < length s"
  unfolding lex_unicode_def
  by (cases s rule: list.exhaust; simp split: list.splits option.splits if_splits)

lemma lex_escape_shorter: "lex_escape s = Some (d, rest) \<Longrightarrow> length rest < length s"
  unfolding lex_escape_def
  by (cases s) (auto split: option.splits if_splits dest: lex_unicode_shorter)

text \<open>
  The characters of a string literal after its opening quote: the decoded string and the
  text after the closing quote. An unescaped control character, an unknown escape and a
  missing closing quote are errors.
\<close>

function lex_string :: "string \<Rightarrow> (string \<times> string) option" where
  "lex_string [] = None"
| "lex_string (c # cs) =
     (if c = dquote then Some ([], cs)
      else if c = backslash then
        (case lex_escape cs of
           None \<Rightarrow> None
         | Some (d, rest) \<Rightarrow> map_option (apfst ((#) d)) (lex_string rest))
      else if (of_char c :: nat) < 0x20 then None
      else map_option (apfst ((#) c)) (lex_string cs))"
  by pat_completeness auto
termination
proof (relation "measure length")
  fix c cs x d rest
  assume "lex_escape cs = Some x" "(d, rest) = x"
  then show "(rest, c # cs) \<in> measure length"
    using lex_escape_shorter [of cs d rest] by simp
qed auto

declare lex_string.simps(2) [simp del]

lemma lex_string_shorter: "lex_string s = Some (x, rest) \<Longrightarrow> length rest < length s"
proof (induction "length s" arbitrary: s x rule: less_induct)
  case less
  from less.prems obtain c cs where s: "s = c # cs"
    by (cases s) auto
  have IH: "length rest < length t" if "length t < length s" "lex_string t = Some (y, rest)" for t y
    using less.hyps that by blast
  from less.prems s have
    "(c = dquote \<and> rest = cs)
      \<or> (\<exists>d t y. lex_escape cs = Some (d, t) \<and> lex_string t = Some (y, rest))
      \<or> (\<exists>y. lex_string cs = Some (y, rest))"
    by (auto simp: lex_string.simps(2) split: if_splits option.splits)
  then show ?case
  proof (elim disjE exE conjE)
    assume "rest = cs"
    with s show ?thesis by simp
  next
    fix d t y assume e: "lex_escape cs = Some (d, t)" and l: "lex_string t = Some (y, rest)"
    from lex_escape_shorter [OF e] s have "length t < length s" by simp
    from IH [OF this l] lex_escape_shorter [OF e] s show ?thesis by simp
  next
    fix y assume "lex_string cs = Some (y, rest)"
    with IH [of cs y] s show ?thesis by simp
  qed
qed

fun lex_digits :: "nat \<Rightarrow> string \<Rightarrow> nat \<times> string" where
  "lex_digits acc [] = (acc, [])"
| "lex_digits acc (c # cs) =
     (if is_digit c then lex_digits (10 * acc + digit_val c) cs else (acc, c # cs))"

text \<open>
  The digits of an integer literal: a single \<^verbatim>\<open>0\<close>, or a non-zero digit and the digits
  after it.
\<close>

definition lex_nat :: "string \<Rightarrow> (nat \<times> string) option" where
  "lex_nat s =
     (case s of
        [] \<Rightarrow> None
      | c # cs \<Rightarrow>
          (if c = CHR ''0'' then Some (0, cs)
           else if is_digit c then Some (lex_digits (digit_val c) cs)
           else None))"

definition continues_number :: "string \<Rightarrow> bool" where
  "continues_number s =
     (case s of
        [] \<Rightarrow> False
      | c # cs \<Rightarrow> is_digit c \<or> c = CHR ''.'' \<or> c = CHR ''e'' \<or> c = CHR ''E'')"

definition lex_number :: "string \<Rightarrow> (int \<times> string) option" where
  "lex_number s =
     (case (case s of
              [] \<Rightarrow> None
            | c # cs \<Rightarrow>
                (if c = CHR ''-'' then map_option (apfst (\<lambda>n. - int n)) (lex_nat cs)
                 else map_option (apfst int) (lex_nat s))) of
        None \<Rightarrow> None
      | Some (i, rest) \<Rightarrow> if continues_number rest then None else Some (i, rest))"

lemma lex_digits_shorter: "lex_digits acc s = (n, rest) \<Longrightarrow> length rest \<le> length s"
  by (induction s arbitrary: acc) (auto split: if_splits intro: le_SucI)

lemma lex_nat_shorter: "lex_nat s = Some (n, rest) \<Longrightarrow> length rest < length s"
  by (auto simp: lex_nat_def less_Suc_eq_le split: list.splits if_splits dest: lex_digits_shorter)

lemma lex_number_shorter: "lex_number s = Some (i, rest) \<Longrightarrow> length rest < length s"
  by (auto simp: lex_number_def split: list.splits if_splits option.splits
      dest!: lex_nat_shorter)

function tokenize :: "string \<Rightarrow> token list option" where
  "tokenize [] = Some []"
| "tokenize (c # cs) =
     (if is_ws c then tokenize cs
      else if c = CHR ''{'' then map_option ((#) LBrace) (tokenize cs)
      else if c = CHR ''}'' then map_option ((#) RBrace) (tokenize cs)
      else if c = CHR ''['' then map_option ((#) LBracket) (tokenize cs)
      else if c = CHR '']'' then map_option ((#) RBracket) (tokenize cs)
      else if c = CHR '':'' then map_option ((#) Colon) (tokenize cs)
      else if c = CHR '','' then map_option ((#) Comma) (tokenize cs)
      else if c = dquote then
        (case lex_string cs of
           None \<Rightarrow> None
         | Some (s, rest) \<Rightarrow> map_option ((#) (TString s)) (tokenize rest))
      else if c = CHR ''-'' \<or> is_digit c then
        (case lex_number (c # cs) of
           None \<Rightarrow> None
         | Some (i, rest) \<Rightarrow> map_option ((#) (TNumber i)) (tokenize rest))
      else if take 4 (c # cs) = ''true'' then map_option ((#) TTrue) (tokenize (drop 3 cs))
      else if take 5 (c # cs) = ''false'' then map_option ((#) TFalse) (tokenize (drop 4 cs))
      else if take 4 (c # cs) = ''null'' then map_option ((#) TNull) (tokenize (drop 3 cs))
      else None)"
  by pat_completeness auto
termination
proof (relation "measure length")
  fix c cs x s rest
  assume "lex_string cs = Some x" "(s, rest) = x"
  then show "(rest, c # cs) \<in> measure length"
    using lex_string_shorter [of cs s rest] by simp
next
  fix c cs x i rest
  assume "lex_number (c # cs) = Some x" "(i, rest) = x"
  then show "(rest, c # cs) \<in> measure length"
    using lex_number_shorter [of "c # cs" i rest] by simp
qed auto

declare tokenize.simps(2) [simp del]

subsection \<open>\<^verbatim>\<open>JSON.parse\<close>: the grammar\<close>

text \<open>
  The grammar is read by an automaton over the tokens. Its stack holds one frame for every
  array or object that is still open: the elements or properties read so far, and for an
  object the key whose value is being read. Its mode says which tokens may come next.
\<close>

datatype frame =
    FArray "json list"
  | FObject "(string \<times> json) list"
  | FKey "(string \<times> json) list" string

datatype mode = MValue | MValueOrClose | MKeyOrClose | MKey | MColon | MCommaOrClose

datatype pstate = Await mode "frame list" | Done json

text \<open>A finished value goes to the innermost open container, or is the result.\<close>

fun deliver :: "json \<Rightarrow> frame list \<Rightarrow> pstate option" where
  "deliver v [] = Some (Done v)"
| "deliver v (FArray elems # st) = Some (Await MCommaOrClose (FArray (elems @ [v]) # st))"
| "deliver v (FKey props k # st) = Some (Await MCommaOrClose (FObject (CreateDataProperty k v props) # st))"
| "deliver v (FObject props # st) = None"

fun scalar :: "token \<Rightarrow> json option" where
  "scalar (TString s) = Some (JString s)"
| "scalar (TNumber i) = Some (JNumber i)"
| "scalar TTrue = Some (JBool True)"
| "scalar TFalse = Some (JBool False)"
| "scalar TNull = Some JNull"
| "scalar _ = None"

definition value_token :: "frame list \<Rightarrow> token \<Rightarrow> pstate option" where
  "value_token st t =
     (if t = LBracket then Some (Await MValueOrClose (FArray [] # st))
      else if t = LBrace then Some (Await MKeyOrClose (FObject [] # st))
      else (case scalar t of None \<Rightarrow> None | Some v \<Rightarrow> deliver v st))"

definition key_token :: "frame list \<Rightarrow> token \<Rightarrow> pstate option" where
  "key_token st t =
     (case (t, st) of
        (TString k, FObject props # st') \<Rightarrow> Some (Await MColon (FKey props k # st'))
      | _ \<Rightarrow> None)"

definition close_array :: "frame list \<Rightarrow> pstate option" where
  "close_array st = (case st of FArray elems # st' \<Rightarrow> deliver (JArray elems) st' | _ \<Rightarrow> None)"

definition close_object :: "frame list \<Rightarrow> pstate option" where
  "close_object st = (case st of FObject props # st' \<Rightarrow> deliver (JObject props) st' | _ \<Rightarrow> None)"

fun step :: "pstate \<Rightarrow> token \<Rightarrow> pstate option" where
  "step (Done v) t = None"
| "step (Await MValue st) t = value_token st t"
| "step (Await MValueOrClose st) t = (if t = RBracket then close_array st else value_token st t)"
| "step (Await MKeyOrClose st) t = (if t = RBrace then close_object st else key_token st t)"
| "step (Await MKey st) t = key_token st t"
| "step (Await MColon st) t = (if t = Colon then Some (Await MValue st) else None)"
| "step (Await MCommaOrClose st) t =
     (case st of
        FArray elems # st' \<Rightarrow>
          (if t = Comma then Some (Await MValue st)
           else if t = RBracket then close_array st else None)
      | FObject props # st' \<Rightarrow>
          (if t = Comma then Some (Await MKey st)
           else if t = RBrace then close_object st else None)
      | _ \<Rightarrow> None)"

fun run :: "pstate \<Rightarrow> token list \<Rightarrow> pstate option" where
  "run s [] = Some s"
| "run s (t # ts) = (case step s t of None \<Rightarrow> None | Some s' \<Rightarrow> run s' ts)"

text \<open>The \<^verbatim>\<open>SyntaxError\<close> the parser throws; the engine's wording of it is not modelled.\<close>

definition JSON_SyntaxError :: thrown where
  "JSON_SyntaxError =
     ErrorInstance ''Unexpected token in JSON'' (Some ''SyntaxError: Unexpected token in JSON'')"

definition JSON_parse :: "string \<Rightarrow> thrown + json" where
  "JSON_parse text =
     (case tokenize text of
        None \<Rightarrow> Inl JSON_SyntaxError
      | Some ts \<Rightarrow>
          (case run (Await MValue []) ts of
             Some (Done v) \<Rightarrow> Inr v
           | _ \<Rightarrow> Inl JSON_SyntaxError))"

subsection \<open>Buffers\<close>

text \<open>
  A buffer is the list of its bytes and a text is the list of its characters. On ASCII
  text UTF-8 encodes every character as the byte of the same code, so \<^verbatim>\<open>Buffer.from\<close>
  and \<^verbatim>\<open>toString\<close> leave the list as it is.
\<close>

definition Buffer_from :: "string \<Rightarrow> bytes" where
  "Buffer_from text = text"

definition Buffer_toString :: "bytes \<Rightarrow> string" where
  "Buffer_toString buf = buf"

text \<open>\<^verbatim>\<open>parsePayload\<close> as the base listener defines it, and the parse of the explorer.\<close>

definition parsePayload :: "json parser" where
  "parsePayload data = JSON_parse (Buffer_toString data)"

section \<open>Subscription options and their merge\<close>

text \<open>
  \<^verbatim>\<open>CreateSubscriptionOptions\<close> of the client library, with the three properties the
  defaults set; every other property a caller may give (labels, filter, push
  configuration, \<dots>) is kept by name in \<open>otherOptions\<close>.
\<close>

record Duration =
  seconds :: int

record RetryPolicy =
  minimumBackoff :: "Duration optional"
  maximumBackoff :: "Duration optional"

record CreateSubscriptionOptions =
  ackDeadlineSeconds :: "int optional"
  retryPolicy :: "RetryPolicy optional"
  messageRetentionDuration :: "Duration optional"
  otherOptions :: "(string \<times> json) list"

text \<open>The declaration of a listener: the decorator's argument, the fields of a base listener.\<close>

record PubSubListenerOptions =
  topicName :: string
  subscriptionName :: string
  subscriptionOptions :: "CreateSubscriptionOptions option"

definition empty_RetryPolicy :: RetryPolicy where
  "empty_RetryPolicy = \<lparr>minimumBackoff = Absent, maximumBackoff = Absent\<rparr>"

definition empty_options :: CreateSubscriptionOptions where
  "empty_options =
     \<lparr>ackDeadlineSeconds = Absent, retryPolicy = Absent,
      messageRetentionDuration = Absent, otherOptions = []\<rparr>"

text \<open>Object spread, property by property.\<close>

definition spread_RetryPolicy :: "RetryPolicy \<Rightarrow> RetryPolicy \<Rightarrow> RetryPolicy" where
  "spread_RetryPolicy a b =
     \<lparr>minimumBackoff = spread_prop (minimumBackoff a) (minimumBackoff b),
      maximumBackoff = spread_prop (maximumBackoff a) (maximumBackoff b)\<rparr>"

definition spread_options ::
  "CreateSubscriptionOptions \<Rightarrow> CreateSubscriptionOptions \<Rightarrow> CreateSubscriptionOptions" where
  "spread_options a b =
     \<lparr>ackDeadlineSeconds = spread_prop (ackDeadlineSeconds a) (ackDeadlineSeconds b),
      retryPolicy = spread_prop (retryPolicy a) (retryPolicy b),
      messageRetentionDuration = spread_prop (messageRetentionDuration a) (messageRetentionDuration b),
      otherOptions = foldl (\<lambda>props kv. CreateDataProperty (fst kv) (snd kv) props)
        (otherOptions a) (otherOptions b)\<rparr>"

text \<open>
  \<^verbatim>\<open>x ?? {}\<close> and \<^verbatim>\<open>x || {}\<close> on a retry policy that may be missing: the object when there
  is one, the empty object otherwise.
\<close>

definition retryPolicy_or_empty :: "CreateSubscriptionOptions option \<Rightarrow> RetryPolicy" where
  "retryPolicy_or_empty so =
     (case so of
        None \<Rightarrow> empty_RetryPolicy
      | Some opts \<Rightarrow> (case retryPolicy opts of Val rp \<Rightarrow> rp | _ \<Rightarrow> empty_RetryPolicy))"

text \<open>
  The defaults: \<^verbatim>\<open>defaultOptions\<close> in \<^verbatim>\<open>getMergedSubscriptionOptions\<close> of the base listener,
  \<^verbatim>\<open>defaultSubscriptionOptions\<close> of the explorer. The two literals are the same.
\<close>

definition default_retryPolicy :: RetryPolicy where
  "default_retryPolicy =
     \<lparr>minimumBackoff = Val \<lparr>seconds = 10\<rparr>, maximumBackoff = Val \<lparr>seconds = 600\<rparr>\<rparr>"

definition defaultOptions :: CreateSubscriptionOptions where
  "defaultOptions =
     \<lparr>ackDeadlineSeconds = Val 60,
      retryPolicy = Val default_retryPolicy,
      messageRetentionDuration = Val \<lparr>seconds = 86400 * 7\<rparr>,
      otherOptions = []\<rparr>"

definition defaultSubscriptionOptions :: CreateSubscriptionOptions where
  "defaultSubscriptionOptions =
     \<lparr>ackDeadlineSeconds = Val 60,
      retryPolicy = Val \<lparr>minimumBackoff = Val \<lparr>seconds = 10\<rparr>, maximumBackoff = Val \<lparr>seconds = 600\<rparr>\<rparr>,
      messageRetentionDuration = Val \<lparr>seconds = 86400 * 7\<rparr>,
      otherOptions = []\<rparr>"

text \<open>
  \<^verbatim>\<open>getMergedSubscriptionOptions\<close> of the base listener:
  \<^verbatim>\<open>{...defaultOptions, ...(this.subscriptionOptions ?? {}), retryPolicy: {...defaultOptions.retryPolicy, ...(this.subscriptionOptions?.retryPolicy ?? {})}}\<close>.
\<close>

definition getMergedSubscriptionOptions ::
  "CreateSubscriptionOptions option \<Rightarrow> CreateSubscriptionOptions" where
  "getMergedSubscriptionOptions so =
     (spread_options defaultOptions (case so of None \<Rightarrow> empty_options | Some opts \<Rightarrow> opts))
       \<lparr>retryPolicy := Val (spread_RetryPolicy default_retryPolicy (retryPolicy_or_empty so))\<rparr>"

text \<open>
  \<^verbatim>\<open>mergedOptions\<close> in \<^verbatim>\<open>getOrCreateSubscription\<close> of the explorer:
  \<^verbatim>\<open>{...this.defaultSubscriptionOptions, ...meta.subscriptionOptions, retryPolicy: {...this.defaultSubscriptionOptions.retryPolicy, ...(meta.subscriptionOptions?.retryPolicy || {})}}\<close>.
\<close>

definition mergedOptions :: "PubSubListenerOptions \<Rightarrow> CreateSubscriptionOptions" where
  "mergedOptions meta =
     (spread_options defaultSubscriptionOptions
        (case subscriptionOptions meta of None \<Rightarrow> empty_options | Some opts \<Rightarrow> opts))
       \<lparr>retryPolicy :=
          Val (spread_RetryPolicy
                 (case retryPolicy defaultSubscriptionOptions of Val rp \<Rightarrow> rp | _ \<Rightarrow> empty_RetryPolicy)
                 (retryPolicy_or_empty (subscriptionOptions meta)))\<rparr>"

section \<open>Module options and the client (pubsub.module.ts, both variants)\<close>

datatype LoggerService = NestLogger string | CustomLogger string

record Credentials =
  client_email :: string
  private_key :: string

text \<open>
  \<^verbatim>\<open>PubsubConfigOptions\<close> as an object at run time: the type asks for \<^verbatim>\<open>projectId\<close>, and
  for \<^verbatim>\<open>port\<close> in emulator mode, but no code checks that an object has them, so every
  property may be absent.
\<close>

record PubsubConfigOptions =
  projectId :: "string optional"
  logger :: "LoggerService optional"
  autoCreateTopics :: "bool optional"
  emulatorMode :: "bool optional"
  port :: "int optional"
  keyFilename :: "string optional"
  credentials :: "Credentials optional"

text \<open>Truthiness of a property read, for the types the options have.\<close>

definition truthy_bool :: "bool optional \<Rightarrow> bool" where
  "truthy_bool p = (case p of Val b \<Rightarrow> b | _ \<Rightarrow> False)"

definition truthy_number :: "int optional \<Rightarrow> bool" where
  "truthy_number p = (case p of Val n \<Rightarrow> n \<noteq> 0 | _ \<Rightarrow> False)"

definition truthy_string :: "string optional \<Rightarrow> bool" where
  "truthy_string p = (case p of Val s \<Rightarrow> s \<noteq> [] | _ \<Rightarrow> False)"

definition truthy_object :: "'a optional \<Rightarrow> bool" where
  "truthy_object p = (case p of Val x \<Rightarrow> True | _ \<Rightarrow> False)"

text \<open>
  The merge in \<^verbatim>\<open>register\<close> of the module of the base-listener variant:
  \<^verbatim>\<open>{emulatorMode: false, autoCreateTopics: false, ...options, logger: options.logger || new Logger("PubsubModule")}\<close>.
\<close>

definition register_mergedOptions :: "PubsubConfigOptions \<Rightarrow> PubsubConfigOptions" where
  "register_mergedOptions options =
     \<lparr>projectId = projectId options,
      logger = Val (case logger options of Val l \<Rightarrow> l | _ \<Rightarrow> NestLogger ''PubsubModule''),
      autoCreateTopics = spread_prop (Val False) (autoCreateTopics options),
      emulatorMode = spread_prop (Val False) (emulatorMode options),
      port = port options,
      keyFilename = keyFilename options,
      credentials = credentials options\<rparr>"

text \<open>
  \<^verbatim>\<open>mergeDefaultOptions\<close> of the module of the explorer variant:
  \<^verbatim>\<open>{emulatorMode: false, autoCreateTopics: false, ...options}\<close>.
\<close>

definition mergeDefaultOptions :: "PubsubConfigOptions \<Rightarrow> PubsubConfigOptions" where
  "mergeDefaultOptions options =
     \<lparr>projectId = projectId options,
      logger = logger options,
      autoCreateTopics = spread_prop (Val False) (autoCreateTopics options),
      emulatorMode = spread_prop (Val False) (emulatorMode options),
      port = port options,
      keyFilename = keyFilename options,
      credentials = credentials options\<rparr>"

text \<open>The argument a client is constructed with.\<close>

record ClientOptions =
  client_projectId :: "string optional"
  client_apiEndpoint :: "string optional"
  client_emulatorMode :: "bool optional"
  client_port :: "int optional"
  client_keyFilename :: "string optional"
  client_credentials :: "Credentials optional"

definition no_ClientOptions :: ClientOptions where
  "no_ClientOptions =
     \<lparr>client_projectId = Absent, client_apiEndpoint = Absent, client_emulatorMode = Absent,
      client_port = Absent, client_keyFilename = Absent, client_credentials = Absent\<rparr>"

text \<open>
  \<^verbatim>\<open>createClient\<close> of the explorer variant: in emulator mode a port is required, and the
  client is pointed at \<^verbatim>\<open>localhost\<close>; otherwise the project and the credentials are passed
  on as they are.
\<close>

definition createClient :: "PubsubConfigOptions \<Rightarrow> thrown + ClientOptions" where
  "createClient options =
     (if truthy_bool (emulatorMode options) then
        (if \<not> truthy_number (port options) then
           Inl (new_Error ''PubsubModule: Emulator mode requires a port.'')
         else
           Inr (no_ClientOptions
             \<lparr>client_projectId := read_prop (projectId options),
              client_apiEndpoint :=
                Val (''localhost:'' @ (case port options of Val n \<Rightarrow> Number_toString n | _ \<Rightarrow> ''undefined''))\<rparr>))
      else
        Inr (no_ClientOptions
          \<lparr>client_projectId := read_prop (projectId options),
           client_keyFilename := read_prop (keyFilename options),
           client_credentials := read_prop (credentials options)\<rparr>))"

text \<open>
  The client factory in \<^verbatim>\<open>register\<close> of the base-listener variant: it has no check of
  the port.
\<close>

definition register_useFactory :: "PubsubConfigOptions \<Rightarrow> thrown + ClientOptions" where
  "register_useFactory merged =
     (if truthy_bool (emulatorMode merged) then
        Inr (no_ClientOptions
          \<lparr>client_emulatorMode := Val True,
           client_port := read_prop (port merged),
           client_projectId := read_prop (projectId merged)\<rparr>)
      else if truthy_string (keyFilename merged) then
        Inr (no_ClientOptions
          \<lparr>client_projectId := read_prop (projectId merged),
           client_keyFilename := keyFilename merged\<rparr>)
      else if truthy_object (credentials merged) then
        Inr (no_ClientOptions
          \<lparr>client_projectId := read_prop (projectId merged),
           client_credentials := credentials merged\<rparr>)
      else
        Inr (no_ClientOptions\<lparr>client_projectId := read_prop (projectId merged)\<rparr>))"

section \<open>The messaging backend, the logger and asynchronous code\<close>

text \<open>
  The client library is outside the repository. What the code uses of it is modelled by
  a state: the topics and subscriptions that exist at the backend, the messages it has
  accepted, and a record of the calls made. A call may be rejected (\<open>faults\<close> says which
  and with what); the backend chooses the identifier of a published message
  (\<open>assign_id\<close>). The state also holds the lines given to the logger, the event
  listeners registered on subscriptions, and the explorer's list of subscriptions.
\<close>

record PublishRequest =
  pub_data :: bytes
  pub_attributes :: "(string \<times> string) list"

datatype backend_call =
    TopicExists string
  | TopicCreate string
  | SubscriptionExists string
  | SubscriptionCreate string string CreateSubscriptionOptions
  | PublishMessage string PublishRequest

text \<open>A subscription handle: \<^verbatim>\<open>topic.subscription(name)\<close>. A topic handle is the topic's name.\<close>

record Subscription =
  sub_topic :: string
  sub_name :: string

record world =
  topics :: "string list"
  subscriptions :: "(string \<times> string \<times> CreateSubscriptionOptions) list"
  published :: "(string \<times> PublishRequest \<times> string) list"
  faults :: "backend_call \<Rightarrow> thrown option"
  assign_id :: "nat \<Rightarrow> string"
  calls :: "backend_call list"
  listeners :: "(string \<times> string) list"
  closed :: "string list"
  explorer_subscriptions :: "Subscription list"
  world_log :: "log_entry list"

text \<open>
  An asynchronous function: from a state, it resolves with a value or rejects with a
  thrown value, and leaves a state.
\<close>

type_synonym 'a io = "world \<Rightarrow> (thrown + 'a) \<times> world"

definition io_return :: "'a \<Rightarrow> 'a io" where
  "io_return x w = (Inr x, w)"

definition io_throw :: "thrown \<Rightarrow> 'a io" where
  "io_throw e w = (Inl e, w)"

definition io_bind :: "'a io \<Rightarrow> ('a \<Rightarrow> 'b io) \<Rightarrow> 'b io" where
  "io_bind m f w = (case m w of (Inl e, w') \<Rightarrow> (Inl e, w') | (Inr x, w') \<Rightarrow> f x w')"

definition io_then :: "'a io \<Rightarrow> 'b io \<Rightarrow> 'b io" where
  "io_then m n = io_bind m (\<lambda>_. n)"

definition io_catch :: "'a io \<Rightarrow> (thrown \<Rightarrow> 'a io) \<Rightarrow> 'a io" where
  "io_catch m h w = (case m w of (Inl e, w') \<Rightarrow> h e w' | (Inr x, w') \<Rightarrow> (Inr x, w'))"

definition logger_call :: "level \<Rightarrow> string \<Rightarrow> log_param list \<Rightarrow> unit io" where
  "logger_call lv m ps w =
     (Inr (), w\<lparr>world_log := world_log w @
        [\<lparr>entry_level = lv, entry_message = m, entry_params = ps\<rparr>]\<rparr>)"

text \<open>A call to the backend: recorded, then rejected or carried out.\<close>

definition request :: "backend_call \<Rightarrow> (world \<Rightarrow> 'a \<times> world) \<Rightarrow> 'a io" where
  "request c effect w =
     (let w1 = w\<lparr>calls := calls w @ [c]\<rparr> in
      case faults w c of
        Some e \<Rightarrow> (Inl e, w1)
      | None \<Rightarrow> (case effect w1 of (x, w2) \<Rightarrow> (Inr x, w2)))"

definition topic_exists :: "string \<Rightarrow> bool io" where
  "topic_exists name = request (TopicExists name) (\<lambda>w. (name \<in> set (topics w), w))"

definition topic_create :: "string \<Rightarrow> unit io" where
  "topic_create name = request (TopicCreate name) (\<lambda>w. ((), w\<lparr>topics := topics w @ [name]\<rparr>))"

definition subscription_exists :: "Subscription \<Rightarrow> bool io" where
  "subscription_exists s =
     request (SubscriptionExists (sub_name s))
       (\<lambda>w. (map_of (subscriptions w) (sub_name s) \<noteq> None, w))"

definition subscription_create :: "Subscription \<Rightarrow> CreateSubscriptionOptions \<Rightarrow> unit io" where
  "subscription_create s opts =
     request (SubscriptionCreate (sub_topic s) (sub_name s) opts)
       (\<lambda>w. ((), w\<lparr>subscriptions := subscriptions w @ [(sub_name s, sub_topic s, opts)]\<rparr>))"

definition publishMessage :: "string \<Rightarrow> PublishRequest \<Rightarrow> string io" where
  "publishMessage topic req =
     request (PublishMessage topic req)
       (\<lambda>w. (assign_id w (length (published w)),
              w\<lparr>published := published w @ [(topic, req, assign_id w (length (published w)))]\<rparr>))"

definition subscription_on :: "Subscription \<Rightarrow> string \<Rightarrow> unit io" where
  "subscription_on s event w = (Inr (), w\<lparr>listeners := listeners w @ [(sub_name s, event)]\<rparr>)"

definition subscription_close :: "Subscription \<Rightarrow> unit io" where
  "subscription_close s w = (Inr (), w\<lparr>closed := closed w @ [sub_name s]\<rparr>)"

section \<open>The explorer: provisioning and wiring (pubsub-explorer.service.ts)\<close>

definition getOrCreateTopic :: "PubsubConfigOptions \<Rightarrow> PubSubListenerOptions \<Rightarrow> string io" where
  "getOrCreateTopic options meta =
     io_bind (topic_exists (topicName meta)) (\<lambda>topicExists.
       if \<not> topicExists then
         (if truthy_bool (autoCreateTopics options) then
            io_then (logger_call WARN
                (''Topic '' @ [CHR 0x27] @ topicName meta @ [CHR 0x27] @ '' does not exist. Auto-creating...'')
                [Str ''PubSubExplorer''])
           (io_then (topic_create (topicName meta))
           (io_then (logger_call LOG
                (''Topic '' @ [CHR 0x27] @ topicName meta @ [CHR 0x27] @ '' created.'')
                [Str ''PubSubExplorer''])
           (io_return (topicName meta))))
          else
            io_throw (new_Error
              (''Topic '' @ [CHR 0x27] @ topicName meta @ [CHR 0x27]
                @ '' does not exist and auto-creation is disabled. Cannot start listener.'')))
       else io_return (topicName meta))"

definition getOrCreateSubscription :: "string \<Rightarrow> PubSubListenerOptions \<Rightarrow> Subscription io" where
  "getOrCreateSubscription topic meta =
     (let subscription = \<lparr>sub_topic = topic, sub_name = subscriptionName meta\<rparr> in
      io_bind (subscription_exists subscription) (\<lambda>subscriptionExists.
        if \<not> subscriptionExists then
          io_then (logger_call LOG
              (''Creating subscription '' @ subscriptionName meta @ '' with merged options...'') [])
         (io_then (subscription_create subscription (mergedOptions meta))
         (io_return subscription))
        else io_return subscription))"

definition setupHandler :: "PubsubConfigOptions \<Rightarrow> string \<Rightarrow> PubSubListenerOptions \<Rightarrow> unit io" where
  "setupHandler options instanceName meta =
     io_catch
       (io_then (logger_call LOG
           (''Setting up subscription '' @ [CHR 0x27] @ subscriptionName meta @ [CHR 0x27]
             @ '' for topic '' @ [CHR 0x27] @ topicName meta @ [CHR 0x27]) [])
       (io_bind (getOrCreateTopic options meta) (\<lambda>topic.
        io_bind (getOrCreateSubscription topic meta) (\<lambda>subscription.
        io_then (subscription_on subscription ''message'')
       (io_then (\<lambda>w. (Inr (), w\<lparr>explorer_subscriptions := explorer_subscriptions w @ [subscription]\<rparr>))
       (logger_call LOG
           (''Mapped handler '' @ instanceName @ '' to '' @ subscriptionName meta) []))))))
       (\<lambda>error.
          io_then (logger_call ERROR
              (''Fatal error during listener setup for topic '' @ [CHR 0x27] @ topicName meta @ [CHR 0x27])
              [stack_param (normalizeError error), Str ''PubSubExplorer''])
            (io_throw error))"

text \<open>
  A provider of the discovery service: the constructor name of its instance, when it has
  one, and the listener metadata the reflector finds on that constructor.
\<close>

record InstanceWrapper =
  instance_of :: "string option"
  metadata_of :: "PubSubListenerOptions option"

fun explorer_onModuleInit :: "PubsubConfigOptions \<Rightarrow> InstanceWrapper list \<Rightarrow> unit io" where
  "explorer_onModuleInit options [] = io_return ()"
| "explorer_onModuleInit options (wrapper # providers) =
     (case instance_of wrapper of
        None \<Rightarrow> explorer_onModuleInit options providers
      | Some instanceName \<Rightarrow>
          (case metadata_of wrapper of
             None \<Rightarrow> explorer_onModuleInit options providers
           | Some metadata \<Rightarrow>
               io_then (setupHandler options instanceName metadata)
                 (explorer_onModuleInit options providers)))"

fun close_all :: "Subscription list \<Rightarrow> unit io" where
  "close_all [] = io_return ()"
| "close_all (s # ss) = io_then (subscription_close s) (close_all ss)"

definition onModuleDestroy :: "unit io" where
  "onModuleDestroy w = close_all (explorer_subscriptions w) w"

section \<open>The base listener: provisioning and wiring (pubsub-base.listener.ts)\<close>

text \<open>The options object as \<^verbatim>\<open>JSON.stringify\<close> sees it: the properties that have a value.\<close>

definition Duration_json :: "Duration \<Rightarrow> json" where
  "Duration_json d = JObject [(''seconds'', JNumber (seconds d))]"

definition property_json :: "string \<Rightarrow> ('a \<Rightarrow> json) \<Rightarrow> 'a optional \<Rightarrow> (string \<times> json) list" where
  "property_json k f p = (case p of Val x \<Rightarrow> [(k, f x)] | _ \<Rightarrow> [])"

definition RetryPolicy_json :: "RetryPolicy \<Rightarrow> json" where
  "RetryPolicy_json rp =
     JObject (property_json ''minimumBackoff'' Duration_json (minimumBackoff rp)
            @ property_json ''maximumBackoff'' Duration_json (maximumBackoff rp))"

definition options_json :: "CreateSubscriptionOptions \<Rightarrow> json" where
  "options_json opts =
     JObject (property_json ''ackDeadlineSeconds'' JNumber (ackDeadlineSeconds opts)
            @ property_json ''retryPolicy'' RetryPolicy_json (retryPolicy opts)
            @ property_json ''messageRetentionDuration'' Duration_json (messageRetentionDuration opts)
            @ otherOptions opts)"

definition listenForMessages :: "Subscription \<Rightarrow> unit io" where
  "listenForMessages subscription =
     io_then (subscription_on subscription ''message'')
    (io_then (subscription_on subscription ''error'')
    (logger_call LOG (''Listener started for subscription: '' @ sub_name subscription) []))"

definition onModuleInit :: "PubsubConfigOptions \<Rightarrow> string \<Rightarrow> PubSubListenerOptions \<Rightarrow> unit io" where
  "onModuleInit options className this =
     io_catch
       (io_then (logger_call LOG
           (''Setting up subscription '' @ [CHR 0x27] @ subscriptionName this @ [CHR 0x27]
             @ '' for topic '' @ [CHR 0x27] @ topicName this @ [CHR 0x27]) [])
       (io_bind (topic_exists (topicName this)) (\<lambda>topicExists.
        io_then
          (if \<not> topicExists then
             (if truthy_bool (autoCreateTopics options) then
                io_then (logger_call WARN
                    (''Topic '' @ [CHR 0x27] @ topicName this @ [CHR 0x27] @ '' does not exist. Auto-creating...'')
                    [Str className])
               (io_then (topic_create (topicName this))
               (logger_call LOG
                    (''Topic '' @ [CHR 0x27] @ topicName this @ [CHR 0x27] @ '' created.'')
                    [Str className]))
              else
                io_throw (new_Error
                  (''Topic '' @ [CHR 0x27] @ topicName this @ [CHR 0x27]
                    @ '' does not exist and auto-creation is disabled. Cannot start listener.'')))
           else io_return ())
       (let subscription = \<lparr>sub_topic = topicName this, sub_name = subscriptionName this\<rparr> in
        io_bind (subscription_exists subscription) (\<lambda>subscriptionExists.
        io_then
          (if \<not> subscriptionExists then
             io_then (subscription_create subscription
                 (getMergedSubscriptionOptions (subscriptionOptions this)))
               (logger_call LOG
                 (''Subscription '' @ subscriptionName this @ '' created with options: ''
                   @ JSON_stringify (options_json (getMergedSubscriptionOptions (subscriptionOptions this))))
                 [])
           else io_return ())
          (listenForMessages subscription))))))
       (\<lambda>error.
          io_then (logger_call ERROR
              (''Fatal error during listener setup for topic '' @ [CHR 0x27] @ topicName this @ [CHR 0x27])
              [stack_param (normalizeError error), Str className])
            (io_throw error))"

section \<open>The publisher (pubsub-publisher.service.ts)\<close>

record DispatchOptions =
  attributes :: "(string \<times> string) list option"
  logPayload :: "bool option"

definition getTopic :: "PubsubConfigOptions \<Rightarrow> string \<Rightarrow> string io" where
  "getTopic options name =
     io_bind (topic_exists name) (\<lambda>exists.
       if \<not> exists then
         (if truthy_bool (autoCreateTopics options) then
            io_then (logger_call WARN
                (''Topic '' @ [CHR 0x27] @ name @ [CHR 0x27] @ '' does not exist. Auto-creating...'')
                [Str ''PubsubPublisher''])
           (io_then (topic_create name)
           (io_then (logger_call LOG
                (''Topic '' @ [CHR 0x27] @ name @ [CHR 0x27] @ '' created successfully.'')
                [Str ''PubsubPublisher''])
           (io_return name)))
          else
            io_throw (new_Error
              (''Topic '' @ [CHR 0x27] @ name @ [CHR 0x27]
                @ '' does not exist and auto-creation is disabled.'')))
       else io_return name)"

definition dispatch_attributes :: "DispatchOptions option \<Rightarrow> (string \<times> string) list" where
  "dispatch_attributes opts =
     (case opts of
        None \<Rightarrow> []
      | Some os \<Rightarrow> (case attributes os of None \<Rightarrow> [] | Some a \<Rightarrow> a))"

definition logObject :: "string \<Rightarrow> json \<Rightarrow> DispatchOptions option \<Rightarrow> log_metadata" where
  "logObject name payload opts =
     \<lparr>meta_topicName = name,
      meta_attributes = dispatch_attributes opts,
      meta_payloadSize = length (Buffer_from (JSON_stringify payload)),
      meta_payload =
        (case opts of
           None \<Rightarrow> None
         | Some os \<Rightarrow> (if logPayload os = Some True then Some payload else None)),
      meta_messageId = None\<rparr>"

definition dispatchEvent ::
  "PubsubConfigOptions \<Rightarrow> string \<Rightarrow> json \<Rightarrow> DispatchOptions option \<Rightarrow> string io" where
  "dispatchEvent options name payload opts =
     (let dataBuffer = Buffer_from (JSON_stringify payload);
          attrs = dispatch_attributes opts
      in
      io_then (logger_call LOG ''Dispatching event...''
          [Str ''PubsubPublisher'', Meta (logObject name payload opts)])
        (io_catch
          (io_bind (getTopic options name) (\<lambda>topic.
           io_bind (publishMessage topic \<lparr>pub_data = dataBuffer, pub_attributes = attrs\<rparr>) (\<lambda>messageId.
           io_then (logger_call LOG ''Event dispatched successfully''
               [Str ''PubsubPublisher'',
                Meta ((logObject name payload opts)\<lparr>meta_messageId := Some messageId\<rparr>)])
             (io_return messageId))))
          (\<lambda>error.
             io_then (logger_call ERROR ''Failed to dispatch event''
                 [stack_param (normalizeError error), Str ''PubsubPublisher'',
                  Meta (logObject name payload opts)])
               (io_throw error))))"

section \<open>Inputs of the repository's tests\<close>

text \<open>
  The messages the listener tests deliver (pubsub-base.listener.spec.ts): one whose data is
  the encoding of \<^verbatim>\<open>{ hello: 'world' }\<close> and one whose data is not JSON; and the handlers
  the tests install: one that acknowledges, one that rejects with an error.
\<close>

definition hello_world :: json where
  "hello_world = JObject [(''hello'', JString ''world'')]"

definition valid_message :: Message where
  "valid_message =
     \<lparr>msg_id = ''msg-1'',
      msg_data = Buffer_from (JSON_stringify hello_world),
      msg_attributes = [(''traceId'', ''123'')]\<rparr>"

definition malformed_message :: Message where
  "malformed_message =
     \<lparr>msg_id = ''msg-2'',
      msg_data = ''{ '' @ [dquote] @ ''this is not valid json'' @ [dquote] @ '' }'',
      msg_attributes = []\<rparr>"

definition acking_handler :: "json handler" where
  "acking_handler payload msg = \<lparr>run_calls = [Ack], run_failure = None\<rparr>"

definition businessError :: thrown where
  "businessError = new_Error ''Something went wrong in the business logic''"

definition rejecting_handler :: "json handler" where
  "rejecting_handler payload msg = \<lparr>run_calls = [], run_failure = Some businessError\<rparr>"

text \<open>The options object \<^verbatim>\<open>{}\<close>, and the options of the tests.\<close>

definition no_options :: PubsubConfigOptions where
  "no_options =
     \<lparr>projectId = Absent, logger = Absent, autoCreateTopics = Absent, emulatorMode = Absent,
      port = Absent, keyFilename = Absent, credentials = Absent\<rparr>"

definition mockOptions :: PubsubConfigOptions where
  "mockOptions =
     \<lparr>projectId = Val ''test-project'', logger = Val (CustomLogger ''mockLogger''),
      autoCreateTopics = Val True, emulatorMode = Val True,
      port = Val 8080, keyFilename = Absent, credentials = Absent\<rparr>"

text \<open>
  A backend with nothing in it that rejects no call, and the scenarios of the
  specification: the listener of topic \<^verbatim>\<open>user.created\<close>; a subscription \<^verbatim>\<open>s\<close> that exists
  with an ack deadline of 30 seconds, and a listener that declares 300 for it; the topic
  \<^verbatim>\<open>orders\<close> and the payload \<^verbatim>\<open>{id: 1}\<close>.
\<close>

definition empty_backend :: world where
  "empty_backend =
     \<lparr>topics = [], subscriptions = [], published = [], faults = (\<lambda>c. None),
      assign_id = (\<lambda>n. ''message-123''), calls = [], listeners = [], closed = [],
      explorer_subscriptions = [], world_log = []\<rparr>"

definition user_created_listener :: PubSubListenerOptions where
  "user_created_listener =
     \<lparr>topicName = ''user.created'', subscriptionName = ''user-created-sub'',
      subscriptionOptions = None\<rparr>"

definition live_s :: "string \<times> string \<times> CreateSubscriptionOptions" where
  "live_s = (''s'', ''t'', empty_options\<lparr>ackDeadlineSeconds := Val 30\<rparr>)"

definition backend_with_s :: world where
  "backend_with_s = empty_backend\<lparr>topics := [''t''], subscriptions := [live_s]\<rparr>"

definition listener_of_s :: PubSubListenerOptions where
  "listener_of_s =
     \<lparr>topicName = ''t'', subscriptionName = ''s'',
      subscriptionOptions = Some (empty_options\<lparr>ackDeadlineSeconds := Val 300\<rparr>)\<rparr>"

definition backend_with_orders :: world where
  "backend_with_orders = empty_backend\<lparr>topics := [''orders'']\<rparr>"

definition order_1 :: json where
  "order_1 = JObject [(''id'', JNumber 1)]"

definition publishing_failed :: thrown where
  "publishing_failed = new_Error ''Publishing failed''"

section \<open>Vocabulary of the properties\<close>

text \<open>
  The errors thrown for a missing topic when auto-creation is off, by the two listener
  variants and by the publisher; and the calls, among those made, that create a
  subscription.
\<close>

definition listener_missing_topic :: "string \<Rightarrow> thrown" where
  "listener_missing_topic name =
     new_Error (''Topic '' @ [CHR 0x27] @ name @ [CHR 0x27]
       @ '' does not exist and auto-creation is disabled. Cannot start listener.'')"

definition publisher_missing_topic :: "string \<Rightarrow> thrown" where
  "publisher_missing_topic name =
     new_Error (''Topic '' @ [CHR 0x27] @ name @ [CHR 0x27]
       @ '' does not exist and auto-creation is disabled.'')"

fun is_subscription_create :: "backend_call \<Rightarrow> bool" where
  "is_subscription_create (SubscriptionCreate t s opts) = True"
| "is_subscription_create _ = False"

definition subscription_creations :: "backend_call list \<Rightarrow> backend_call list" where
  "subscription_creations cs = filter is_subscription_create cs"





section \<open>The dispatch core: what a delivery does to the message\<close>

lemma by_issuer_Core_Handler [simp]: "by_issuer Core (map (Pair Handler) cs) = []"
  by (induction cs) (simp_all add: by_issuer_def)

lemma by_issuer_append [simp]: "by_issuer who (xs @ ys) = by_issuer who xs @ by_issuer who ys"
  by (simp add: by_issuer_def)

lemma by_issuer_Core_single [simp]: "by_issuer Core [(Core, c)] = [c]"
  by (simp add: by_issuer_def)

lemma onMessage_propagates_nothing [simp]:
  "propagated (onMessage cn parse h msg) = None"
  by (simp add: onMessage_def Let_def split: sum.splits option.splits)

lemma listenForMessages_callback_is_onMessage:
  "listenForMessages_callback cn parse h msg = onMessage cn parse h msg"
  by (simp add: listenForMessages_callback_def Let_def)

text \<open>
  C1. When the parser fails on the data of a message, neither callback invokes the
  handler, and the only call made on the message is one nack, made by the callback: no
  ack, no second nack. Nothing propagates out of the callback.
\<close>

theorem malformed_payload_nacked_once:
  assumes "parse (msg_data msg) = Inl e"
  shows "invocations (listenForMessages_callback cn parse h msg) = []
    \<and> calls_on_message (listenForMessages_callback cn parse h msg) = [(Core, Nack)]
    \<and> propagated (listenForMessages_callback cn parse h msg) = None
    \<and> invocations (setupHandler_callback nm parse h msg) = []
    \<and> calls_on_message (setupHandler_callback nm parse h msg) = [(Core, Nack)]
    \<and> propagated (setupHandler_callback nm parse h msg) = None"
  using assms
  by (simp add: listenForMessages_callback_is_onMessage onMessage_def setupHandler_callback_def)

lemma malformed_message_rejected:
  "parsePayload (msg_data malformed_message) = Inl JSON_SyntaxError"
  by code_simp

theorem malformed_payload_nacked_once_witness:
  "parsePayload (msg_data malformed_message) = Inl JSON_SyntaxError
    \<and> invocations (listenForMessages_callback ''TestListener'' parsePayload acking_handler malformed_message) = []
    \<and> calls_on_message (listenForMessages_callback ''TestListener'' parsePayload acking_handler malformed_message)
        = [(Core, Nack)]
    \<and> invocations (setupHandler_callback ''TestListener'' parsePayload acking_handler malformed_message) = []
    \<and> calls_on_message (setupHandler_callback ''TestListener'' parsePayload acking_handler malformed_message)
        = [(Core, Nack)]"
  using malformed_payload_nacked_once [where parse = parsePayload and msg = malformed_message
      and e = JSON_SyntaxError and h = acking_handler and cn = "''TestListener''"
      and nm = "''TestListener''"]
    malformed_message_rejected
  by simp

text \<open>
  C2. When the payload parses and the handler throws or rejects, the callback itself
  makes exactly one call on the message, a nack, after whatever calls the handler made
  before it failed; the handler was invoked once, with the parsed payload; and the
  failure does not propagate out of the callback.
\<close>

theorem handler_failure_nacked_once:
  assumes "parse (msg_data msg) = Inr p" and "run_failure (h p msg) = Some e"
  shows "by_issuer Core (calls_on_message (listenForMessages_callback cn parse h msg)) = [Nack]
    \<and> calls_on_message (listenForMessages_callback cn parse h msg)
        = map (Pair Handler) (run_calls (h p msg)) @ [(Core, Nack)]
    \<and> invocations (listenForMessages_callback cn parse h msg) = [(p, msg)]
    \<and> propagated (listenForMessages_callback cn parse h msg) = None
    \<and> by_issuer Core (calls_on_message (setupHandler_callback nm parse h msg)) = [Nack]
    \<and> calls_on_message (setupHandler_callback nm parse h msg)
        = map (Pair Handler) (run_calls (h p msg)) @ [(Core, Nack)]
    \<and> invocations (setupHandler_callback nm parse h msg) = [(p, msg)]
    \<and> propagated (setupHandler_callback nm parse h msg) = None"
  using assms
  by (simp add: listenForMessages_callback_is_onMessage onMessage_def setupHandler_callback_def)

lemma valid_message_parses:
  "parsePayload (msg_data valid_message) = Inr hello_world"
  by code_simp

theorem handler_failure_nacked_once_witness:
  "parsePayload (msg_data valid_message) = Inr hello_world
    \<and> run_failure (rejecting_handler hello_world valid_message) = Some businessError
    \<and> calls_on_message (listenForMessages_callback ''TestListener'' parsePayload rejecting_handler valid_message)
        = [(Core, Nack)]
    \<and> calls_on_message (setupHandler_callback ''TestListener'' parsePayload rejecting_handler valid_message)
        = [(Core, Nack)]
    \<and> propagated (setupHandler_callback ''TestListener'' parsePayload rejecting_handler valid_message) = None"
proof -
  have f: "run_failure (rejecting_handler hello_world valid_message) = Some businessError"
    by (simp add: rejecting_handler_def)
  have c: "run_calls (rejecting_handler hello_world valid_message) = []"
    by (simp add: rejecting_handler_def)
  from handler_failure_nacked_once [where parse = parsePayload and msg = valid_message
      and p = hello_world and h = rejecting_handler and e = businessError
      and cn = "''TestListener''" and nm = "''TestListener''"]
    valid_message_parses f c
  show ?thesis by simp
qed

text \<open>
  C3. When the payload parses and the handler completes without raising, the callback
  itself makes no call on the message: the calls on it are exactly those the handler
  made through the handle it was given.
\<close>

theorem handler_success_no_implicit_ack:
  assumes "parse (msg_data msg) = Inr p" and "run_failure (h p msg) = None"
  shows "by_issuer Core (calls_on_message (listenForMessages_callback cn parse h msg)) = []
    \<and> calls_on_message (listenForMessages_callback cn parse h msg)
        = map (Pair Handler) (run_calls (h p msg))
    \<and> invocations (listenForMessages_callback cn parse h msg) = [(p, msg)]
    \<and> by_issuer Core (calls_on_message (setupHandler_callback nm parse h msg)) = []
    \<and> calls_on_message (setupHandler_callback nm parse h msg)
        = map (Pair Handler) (run_calls (h p msg))
    \<and> invocations (setupHandler_callback nm parse h msg) = [(p, msg)]"
  using assms
  by (simp add: listenForMessages_callback_is_onMessage onMessage_def setupHandler_callback_def)

theorem handler_success_no_implicit_ack_witness:
  "parsePayload (msg_data valid_message) = Inr hello_world
    \<and> run_failure (acking_handler hello_world valid_message) = None
    \<and> calls_on_message (listenForMessages_callback ''TestListener'' parsePayload acking_handler valid_message)
        = [(Handler, Ack)]
    \<and> calls_on_message (setupHandler_callback ''TestListener'' parsePayload acking_handler valid_message)
        = [(Handler, Ack)]"
proof -
  have f: "run_failure (acking_handler hello_world valid_message) = None"
    by (simp add: acking_handler_def)
  have c: "run_calls (acking_handler hello_world valid_message) = [Ack]"
    by (simp add: acking_handler_def)
  from handler_success_no_implicit_ack [where parse = parsePayload and msg = valid_message
      and p = hello_world and h = acking_handler
      and cn = "''TestListener''" and nm = "''TestListener''"]
    valid_message_parses f c
  show ?thesis by simp
qed

section \<open>The merge of subscription options\<close>

lemma spread_prop_Absent [simp]: "spread_prop a Absent = a"
  by (simp add: spread_prop_def)

lemma spread_prop_Val [simp]: "spread_prop a (Val x) = Val x"
  by (simp add: spread_prop_def)

lemma spread_prop_Undef [simp]: "spread_prop a Undef = Undef"
  by (simp add: spread_prop_def)

lemma defaults_coincide: "defaultSubscriptionOptions = defaultOptions"
  by (simp add: defaultSubscriptionOptions_def defaultOptions_def default_retryPolicy_def)

lemma mergedOptions_eq:
  "mergedOptions meta = getMergedSubscriptionOptions (subscriptionOptions meta)"
  by (simp add: mergedOptions_def getMergedSubscriptionOptions_def defaults_coincide)
    (simp add: defaultOptions_def)

text \<open>
  C7. In both listener variants, merging no override, or the empty override, yields the
  defaults; and merging an override whose retry policy sets only the minimum backoff,
  whatever else the override sets, yields a retry policy with that minimum and the
  default maximum of 600 seconds.
\<close>

theorem subscription_options_merge_law:
  "getMergedSubscriptionOptions None = defaultOptions
    \<and> getMergedSubscriptionOptions (Some empty_options) = defaultOptions
    \<and> retryPolicy (getMergedSubscriptionOptions
          (Some (opts\<lparr>retryPolicy := Val \<lparr>minimumBackoff = Val d, maximumBackoff = Absent\<rparr>\<rparr>)))
        = Val \<lparr>minimumBackoff = Val d, maximumBackoff = Val \<lparr>seconds = 600\<rparr>\<rparr>
    \<and> maximumBackoff default_retryPolicy = Val \<lparr>seconds = 600\<rparr>
    \<and> mergedOptions (meta\<lparr>subscriptionOptions := None\<rparr>) = defaultSubscriptionOptions
    \<and> mergedOptions (meta\<lparr>subscriptionOptions := Some empty_options\<rparr>) = defaultSubscriptionOptions
    \<and> retryPolicy (mergedOptions (meta\<lparr>subscriptionOptions :=
          Some (opts\<lparr>retryPolicy := Val \<lparr>minimumBackoff = Val d, maximumBackoff = Absent\<rparr>\<rparr>)\<rparr>))
        = Val \<lparr>minimumBackoff = Val d, maximumBackoff = Val \<lparr>seconds = 600\<rparr>\<rparr>"
proof -
  have none: "getMergedSubscriptionOptions None = defaultOptions"
    by (simp add: getMergedSubscriptionOptions_def spread_options_def empty_options_def
        retryPolicy_or_empty_def spread_RetryPolicy_def empty_RetryPolicy_def defaultOptions_def
        default_retryPolicy_def)
  have empty: "getMergedSubscriptionOptions (Some empty_options) = defaultOptions"
    by (simp add: getMergedSubscriptionOptions_def spread_options_def empty_options_def
        retryPolicy_or_empty_def spread_RetryPolicy_def empty_RetryPolicy_def defaultOptions_def
        default_retryPolicy_def)
  have only_min: "retryPolicy (getMergedSubscriptionOptions
      (Some (opts\<lparr>retryPolicy := Val \<lparr>minimumBackoff = Val d, maximumBackoff = Absent\<rparr>\<rparr>)))
    = Val \<lparr>minimumBackoff = Val d, maximumBackoff = Val \<lparr>seconds = 600\<rparr>\<rparr>"
    by (simp add: getMergedSubscriptionOptions_def retryPolicy_or_empty_def
        spread_RetryPolicy_def default_retryPolicy_def)
  have max: "maximumBackoff default_retryPolicy = Val \<lparr>seconds = 600\<rparr>"
    by (simp add: default_retryPolicy_def)
  from none empty only_min max show ?thesis
    by (simp add: mergedOptions_eq defaults_coincide)
qed

section \<open>The module options\<close>

text \<open>
  C8, as the specification states it, fails on the code: an options object without
  \<^verbatim>\<open>projectId\<close> is merged and a client is created from it, in both variants of the module.
\<close>

theorem missing_projectId_accepted:
  "projectId no_options = Absent
    \<and> projectId (mergeDefaultOptions no_options) = Absent
    \<and> createClient (mergeDefaultOptions no_options)
        = Inr (no_ClientOptions\<lparr>client_projectId := Undef, client_keyFilename := Undef,
            client_credentials := Undef\<rparr>)
    \<and> register_useFactory (register_mergedOptions no_options)
        = Inr (no_ClientOptions\<lparr>client_projectId := Undef\<rparr>)"
  by (simp add: no_options_def mergeDefaultOptions_def register_mergedOptions_def createClient_def
      register_useFactory_def truthy_bool_def truthy_string_def truthy_object_def read_prop_def)

text \<open>
  C8, amended. \<^verbatim>\<open>mergeDefaultOptions\<close> is a spread and nothing more: it has a result on
  every options object and no effect besides. Creating the client from its result, in the
  explorer variant of the module, fails exactly when \<^verbatim>\<open>emulatorMode\<close> is \<^verbatim>\<open>true\<close> and
  \<^verbatim>\<open>port\<close> is absent, undefined or zero, and then with the error that asks for a port;
  \<^verbatim>\<open>projectId\<close> has no part in it.
\<close>

theorem createClient_fails_iff:
  "isl (createClient (mergeDefaultOptions options))
      = (emulatorMode options = Val True \<and> \<not> truthy_number (port options))
    \<and> (createClient (mergeDefaultOptions options)
          = Inl (new_Error ''PubsubModule: Emulator mode requires a port.''))
      = (emulatorMode options = Val True \<and> \<not> truthy_number (port options))
    \<and> isl (createClient (mergeDefaultOptions (options\<lparr>projectId := p\<rparr>)))
      = isl (createClient (mergeDefaultOptions options))"
proof -
  have t: "truthy_bool (emulatorMode (mergeDefaultOptions options)) = (emulatorMode options = Val True)"
    by (cases "emulatorMode options") (simp_all add: mergeDefaultOptions_def truthy_bool_def)
  have t': "truthy_bool (emulatorMode (mergeDefaultOptions (options\<lparr>projectId := p\<rparr>)))
      = (emulatorMode options = Val True)"
    by (cases "emulatorMode options") (simp_all add: mergeDefaultOptions_def truthy_bool_def)
  have p: "port (mergeDefaultOptions options) = port options"
    "port (mergeDefaultOptions (options\<lparr>projectId := p\<rparr>)) = port options"
    by (simp_all add: mergeDefaultOptions_def)
  show ?thesis
    unfolding createClient_def t t' p by simp
qed

theorem createClient_fails_iff_witness:
  "isl (createClient (mergeDefaultOptions (mockOptions\<lparr>port := Absent\<rparr>)))
    \<and> \<not> isl (createClient (mergeDefaultOptions mockOptions))
    \<and> \<not> isl (createClient (mergeDefaultOptions no_options))"
  using createClient_fails_iff [of "mockOptions\<lparr>port := Absent\<rparr>"]
    createClient_fails_iff [of mockOptions] createClient_fails_iff [of no_options]
  by (simp add: mockOptions_def no_options_def truthy_number_def)

text \<open>
  C10, as the specification states it, fails on the code: on an options object that omits
  \<^verbatim>\<open>autoCreateTopics\<close> both merges resolve it to \<^verbatim>\<open>false\<close>.
\<close>

theorem autoCreateTopics_defaults_both_false:
  "autoCreateTopics no_options = Absent
    \<and> autoCreateTopics (register_mergedOptions no_options) = Val False
    \<and> autoCreateTopics (mergeDefaultOptions no_options) = Val False"
  by (simp add: no_options_def register_mergedOptions_def mergeDefaultOptions_def)

text \<open>
  C10, amended. The two merges agree on \<^verbatim>\<open>autoCreateTopics\<close>: when the caller omits it,
  both resolve it to \<^verbatim>\<open>false\<close>.
\<close>

theorem autoCreateTopics_defaults_agree:
  assumes "autoCreateTopics options = Absent"
  shows "autoCreateTopics (register_mergedOptions options) = Val False
    \<and> autoCreateTopics (mergeDefaultOptions options) = Val False"
  using assms by (simp add: register_mergedOptions_def mergeDefaultOptions_def)

theorem autoCreateTopics_defaults_agree_witness:
  "autoCreateTopics (mockOptions\<lparr>autoCreateTopics := Absent\<rparr>) = Absent
    \<and> autoCreateTopics (register_mergedOptions (mockOptions\<lparr>autoCreateTopics := Absent\<rparr>)) = Val False
    \<and> autoCreateTopics (mergeDefaultOptions (mockOptions\<lparr>autoCreateTopics := Absent\<rparr>)) = Val False"
  using autoCreateTopics_defaults_agree [of "mockOptions\<lparr>autoCreateTopics := Absent\<rparr>"]
  by simp

text \<open>
  Where the two merges do differ is the logger: the base-listener variant always sets
  one, the explorer variant leaves the caller's property as it is.
\<close>

lemma merges_agree_but_for_logger:
  "register_mergedOptions options
    = (mergeDefaultOptions options)
        \<lparr>logger := Val (case logger options of Val l \<Rightarrow> l | _ \<Rightarrow> NestLogger ''PubsubModule'')\<rparr>"
  by (simp add: register_mergedOptions_def mergeDefaultOptions_def)

section \<open>Provisioning\<close>

lemmas io_defs = io_return_def io_throw_def io_bind_def io_then_def io_catch_def logger_call_def
  request_def topic_exists_def topic_create_def subscription_exists_def subscription_create_def
  publishMessage_def subscription_on_def subscription_close_def

lemma getOrCreateSubscription_existing:
  assumes "map_of (subscriptions w) (subscriptionName meta) = Some live"
    and "faults w (SubscriptionExists (subscriptionName meta)) = None"
  shows "getOrCreateSubscription topic meta w =
    (Inr \<lparr>sub_topic = topic, sub_name = subscriptionName meta\<rparr>,
     w\<lparr>calls := calls w @ [SubscriptionExists (subscriptionName meta)]\<rparr>)"
  using assms by (simp add: getOrCreateSubscription_def io_defs Let_def)

lemma subscription_creations_append [simp]:
  "subscription_creations (xs @ ys) = subscription_creations xs @ subscription_creations ys"
  by (simp add: subscription_creations_def)

lemma subscription_creations_simps [simp]:
  "subscription_creations [] = []"
  "subscription_creations (TopicExists t # cs) = subscription_creations cs"
  "subscription_creations (TopicCreate t # cs) = subscription_creations cs"
  "subscription_creations (SubscriptionExists s # cs) = subscription_creations cs"
  "subscription_creations (PublishMessage t r # cs) = subscription_creations cs"
  by (simp_all add: subscription_creations_def)

lemma onModuleInit_existing:
  assumes "map_of (subscriptions w) (subscriptionName this) = Some live"
  shows "subscription_creations (calls (snd (onModuleInit options cn this w))) = subscription_creations (calls w)
    \<and> subscriptions (snd (onModuleInit options cn this w)) = subscriptions w"
  using assms
  by (simp add: onModuleInit_def listenForMessages_def io_defs Let_def split: option.splits)

text \<open>
  C5. When the subscription exists at the backend and the backend answers the existence
  check, \<^verbatim>\<open>getOrCreateSubscription\<close> returns the handle of that subscription after the one
  check and nothing else: no call creates a subscription, the live subscriptions and
  their configurations are as before, and the listener's subscription options have no
  part in the result. A second call from the state the first one left does the same.
  \<^verbatim>\<open>onModuleInit\<close> of the base listener, too, creates no subscription and leaves the live
  ones as they are.
\<close>

theorem ensureSubscription_existing:
  assumes "map_of (subscriptions w) (subscriptionName meta) = Some live"
    and "faults w (SubscriptionExists (subscriptionName meta)) = None"
  shows "getOrCreateSubscription topic meta w =
      (Inr \<lparr>sub_topic = topic, sub_name = subscriptionName meta\<rparr>,
       w\<lparr>calls := calls w @ [SubscriptionExists (subscriptionName meta)]\<rparr>)
    \<and> subscription_creations (calls (snd (getOrCreateSubscription topic meta w)))
        = subscription_creations (calls w)
    \<and> subscriptions (snd (getOrCreateSubscription topic meta w)) = subscriptions w
    \<and> getOrCreateSubscription topic (meta\<lparr>subscriptionOptions := so\<rparr>) w
        = getOrCreateSubscription topic meta w
    \<and> getOrCreateSubscription topic meta (snd (getOrCreateSubscription topic meta w)) =
      (Inr \<lparr>sub_topic = topic, sub_name = subscriptionName meta\<rparr>,
       w\<lparr>calls := calls w @ [SubscriptionExists (subscriptionName meta),
                               SubscriptionExists (subscriptionName meta)]\<rparr>)
    \<and> subscription_creations (calls (snd (onModuleInit options cn meta w)))
        = subscription_creations (calls w)
    \<and> subscriptions (snd (onModuleInit options cn meta w)) = subscriptions w"
proof -
  let ?n = "subscriptionName meta"
  let ?w1 = "w\<lparr>calls := calls w @ [SubscriptionExists ?n]\<rparr>"
  have first: "getOrCreateSubscription topic meta w = (Inr \<lparr>sub_topic = topic, sub_name = ?n\<rparr>, ?w1)"
    by (rule getOrCreateSubscription_existing [OF assms])
  have other: "getOrCreateSubscription topic (meta\<lparr>subscriptionOptions := so\<rparr>) w
      = (Inr \<lparr>sub_topic = topic, sub_name = ?n\<rparr>, ?w1)"
    using getOrCreateSubscription_existing [of w "meta\<lparr>subscriptionOptions := so\<rparr>" live topic] assms
    by simp
  have again: "getOrCreateSubscription topic meta ?w1 =
      (Inr \<lparr>sub_topic = topic, sub_name = ?n\<rparr>,
       w\<lparr>calls := calls w @ [SubscriptionExists ?n, SubscriptionExists ?n]\<rparr>)"
    using getOrCreateSubscription_existing [of ?w1 meta live topic] assms by simp
  from first other again onModuleInit_existing [OF assms(1), of options cn] show ?thesis
    by simp
qed

theorem ensureSubscription_existing_witness:
  "map_of (subscriptions backend_with_s) (subscriptionName listener_of_s) = Some (snd live_s)
    \<and> fst (getOrCreateSubscription ''t'' listener_of_s backend_with_s)
        = Inr \<lparr>sub_topic = ''t'', sub_name = ''s''\<rparr>
    \<and> calls (snd (getOrCreateSubscription ''t'' listener_of_s backend_with_s)) = [SubscriptionExists ''s'']
    \<and> map_option (ackDeadlineSeconds \<circ> snd)
          (map_of (subscriptions (snd (getOrCreateSubscription ''t'' listener_of_s backend_with_s))) ''s'')
        = Some (Val 30)
    \<and> subscription_creations (calls (snd (onModuleInit mockOptions ''TestListener'' listener_of_s backend_with_s))) = []"
proof -
  have live: "map_of (subscriptions backend_with_s) (subscriptionName listener_of_s) = Some (snd live_s)"
    by (simp add: backend_with_s_def listener_of_s_def live_s_def empty_backend_def)
  have nofault: "faults backend_with_s (SubscriptionExists (subscriptionName listener_of_s)) = None"
    by (simp add: backend_with_s_def empty_backend_def)
  have n: "subscriptionName listener_of_s = ''s''"
    by (simp add: listener_of_s_def)
  have c: "calls backend_with_s = []" "subscriptions backend_with_s = [live_s]"
    by (simp_all add: backend_with_s_def empty_backend_def)
  from ensureSubscription_existing [OF live nofault, of "''t''" None mockOptions "''TestListener''"]
  show ?thesis
    by (simp add: live n c live_s_def subscription_creations_def)
qed

section \<open>Missing topics\<close>

lemma getOrCreateTopic_absent:
  assumes "topicName meta \<notin> set (topics w)" and "faults w (TopicExists (topicName meta)) = None"
  shows "getOrCreateTopic options meta w =
    (if truthy_bool (autoCreateTopics options) then
       (case faults w (TopicCreate (topicName meta)) of
          None \<Rightarrow> (Inr (topicName meta),
            w\<lparr>calls := calls w @ [TopicExists (topicName meta), TopicCreate (topicName meta)],
              topics := topics w @ [topicName meta],
              world_log := world_log w @
                [\<lparr>entry_level = WARN,
                  entry_message = ''Topic '' @ [CHR 0x27] @ topicName meta @ [CHR 0x27]
                    @ '' does not exist. Auto-creating...'',
                  entry_params = [Str ''PubSubExplorer'']\<rparr>,
                 \<lparr>entry_level = LOG,
                  entry_message = ''Topic '' @ [CHR 0x27] @ topicName meta @ [CHR 0x27] @ '' created.'',
                  entry_params = [Str ''PubSubExplorer'']\<rparr>]\<rparr>)
        | Some e \<Rightarrow> (Inl e,
            w\<lparr>calls := calls w @ [TopicExists (topicName meta), TopicCreate (topicName meta)],
              world_log := world_log w @
                [\<lparr>entry_level = WARN,
                  entry_message = ''Topic '' @ [CHR 0x27] @ topicName meta @ [CHR 0x27]
                    @ '' does not exist. Auto-creating...'',
                  entry_params = [Str ''PubSubExplorer'']\<rparr>]\<rparr>))
     else (Inl (listener_missing_topic (topicName meta)),
           w\<lparr>calls := calls w @ [TopicExists (topicName meta)]\<rparr>))"
  using assms
  by (simp add: getOrCreateTopic_def io_defs listener_missing_topic_def split: option.splits)

lemma getTopic_absent:
  assumes "name \<notin> set (topics w)" and "faults w (TopicExists name) = None"
  shows "getTopic options name w =
    (if truthy_bool (autoCreateTopics options) then
       (case faults w (TopicCreate name) of
          None \<Rightarrow> (Inr name,
            w\<lparr>calls := calls w @ [TopicExists name, TopicCreate name],
              topics := topics w @ [name],
              world_log := world_log w @
                [\<lparr>entry_level = WARN,
                  entry_message = ''Topic '' @ [CHR 0x27] @ name @ [CHR 0x27]
                    @ '' does not exist. Auto-creating...'',
                  entry_params = [Str ''PubsubPublisher'']\<rparr>,
                 \<lparr>entry_level = LOG,
                  entry_message = ''Topic '' @ [CHR 0x27] @ name @ [CHR 0x27] @ '' created successfully.'',
                  entry_params = [Str ''PubsubPublisher'']\<rparr>]\<rparr>)
        | Some e \<Rightarrow> (Inl e,
            w\<lparr>calls := calls w @ [TopicExists name, TopicCreate name],
              world_log := world_log w @
                [\<lparr>entry_level = WARN,
                  entry_message = ''Topic '' @ [CHR 0x27] @ name @ [CHR 0x27]
                    @ '' does not exist. Auto-creating...'',
                  entry_params = [Str ''PubsubPublisher'']\<rparr>]\<rparr>))
     else (Inl (publisher_missing_topic name), w\<lparr>calls := calls w @ [TopicExists name]\<rparr>))"
  using assms
  by (simp add: getTopic_def io_defs publisher_missing_topic_def split: option.splits)

lemma setupHandler_missing_topic:
  assumes "topicName meta \<notin> set (topics w)" and "faults w (TopicExists (topicName meta)) = None"
    and "\<not> truthy_bool (autoCreateTopics options)"
  shows "fst (setupHandler options inst meta w) = Inl (listener_missing_topic (topicName meta))"
    and "calls (snd (setupHandler options inst meta w)) = calls w @ [TopicExists (topicName meta)]"
    and "topics (snd (setupHandler options inst meta w)) = topics w"
  using assms
  by (simp_all add: setupHandler_def getOrCreateTopic_def io_defs listener_missing_topic_def)

lemma explorer_onModuleInit_missing_topic:
  assumes "topicName meta \<notin> set (topics w)" and "faults w (TopicExists (topicName meta)) = None"
    and "\<not> truthy_bool (autoCreateTopics options)"
  shows "fst (explorer_onModuleInit options (\<lparr>instance_of = Some inst, metadata_of = Some meta\<rparr> # rest) w)
      = Inl (listener_missing_topic (topicName meta))"
    and "calls (snd (explorer_onModuleInit options (\<lparr>instance_of = Some inst, metadata_of = Some meta\<rparr> # rest) w))
      = calls w @ [TopicExists (topicName meta)]"
  using setupHandler_missing_topic [OF assms, of inst]
  by (auto simp: io_then_def io_bind_def split: prod.splits sum.splits)

lemma onModuleInit_missing_topic:
  assumes "topicName this \<notin> set (topics w)" and "faults w (TopicExists (topicName this)) = None"
    and "\<not> truthy_bool (autoCreateTopics options)"
  shows "fst (onModuleInit options cn this w) = Inl (listener_missing_topic (topicName this))"
    and "calls (snd (onModuleInit options cn this w)) = calls w @ [TopicExists (topicName this)]"
    and "topics (snd (onModuleInit options cn this w)) = topics w"
  using assms
  by (simp_all add: onModuleInit_def io_defs listener_missing_topic_def)

lemma dispatchEvent_missing_topic:
  assumes "name \<notin> set (topics w)" and "faults w (TopicExists name) = None"
    and "\<not> truthy_bool (autoCreateTopics options)"
  shows "fst (dispatchEvent options name payload opts w) = Inl (publisher_missing_topic name)"
    and "calls (snd (dispatchEvent options name payload opts w)) = calls w @ [TopicExists name]"
    and "topics (snd (dispatchEvent options name payload opts w)) = topics w"
  using assms
  by (simp_all add: dispatchEvent_def getTopic_def io_defs publisher_missing_topic_def Let_def)

lemma onModuleInit_creates_topic:
  assumes "topicName this \<notin> set (topics w)" and "faults w (TopicExists (topicName this)) = None"
    and "truthy_bool (autoCreateTopics options)"
  shows "take 2 (drop (length (calls w)) (calls (snd (onModuleInit options cn this w))))
      = [TopicExists (topicName this), TopicCreate (topicName this)]"
  using assms
  by (simp add: onModuleInit_def listenForMessages_def io_defs Let_def split: option.splits)

text \<open>
  C6. A topic that does not exist, with the backend answering the existence check. With
  \<^verbatim>\<open>autoCreateTopics\<close> on, the explorer's \<^verbatim>\<open>getOrCreateTopic\<close>, the publisher's
  \<^verbatim>\<open>getTopic\<close> and the base listener's \<^verbatim>\<open>onModuleInit\<close> issue the check and then one
  create call; when the backend carries the creation out, the handle of the topic is
  returned and the topic exists. With \<^verbatim>\<open>autoCreateTopics\<close> off, no create call is issued:
  after the one check the function throws an error whose message names the topic, and the
  callers (\<^verbatim>\<open>setupHandler\<close> and the explorer's \<^verbatim>\<open>onModuleInit\<close>, the base listener's
  \<^verbatim>\<open>onModuleInit\<close>, \<^verbatim>\<open>dispatchEvent\<close>) reject with that same error without a second
  attempt.
\<close>

theorem ensureTopic_absent:
  assumes "topicName meta \<notin> set (topics w)"
    and "faults w (TopicExists (topicName meta)) = None"
  shows "if truthy_bool (autoCreateTopics options) then
       calls (snd (getOrCreateTopic options meta w))
          = calls w @ [TopicExists (topicName meta), TopicCreate (topicName meta)]
       \<and> calls (snd (getTopic options (topicName meta) w))
          = calls w @ [TopicExists (topicName meta), TopicCreate (topicName meta)]
       \<and> take 2 (drop (length (calls w)) (calls (snd (onModuleInit options cn meta w))))
          = [TopicExists (topicName meta), TopicCreate (topicName meta)]
       \<and> (case faults w (TopicCreate (topicName meta)) of
            None \<Rightarrow>
              fst (getOrCreateTopic options meta w) = Inr (topicName meta)
              \<and> topicName meta \<in> set (topics (snd (getOrCreateTopic options meta w)))
              \<and> fst (getTopic options (topicName meta) w) = Inr (topicName meta)
              \<and> topicName meta \<in> set (topics (snd (getTopic options (topicName meta) w)))
          | Some e \<Rightarrow>
              fst (getOrCreateTopic options meta w) = Inl e
              \<and> fst (getTopic options (topicName meta) w) = Inl e)
     else
       fst (getOrCreateTopic options meta w) = Inl (listener_missing_topic (topicName meta))
       \<and> calls (snd (getOrCreateTopic options meta w)) = calls w @ [TopicExists (topicName meta)]
       \<and> fst (setupHandler options inst meta w) = Inl (listener_missing_topic (topicName meta))
       \<and> calls (snd (setupHandler options inst meta w)) = calls w @ [TopicExists (topicName meta)]
       \<and> fst (explorer_onModuleInit options (\<lparr>instance_of = Some inst, metadata_of = Some meta\<rparr> # rest) w)
          = Inl (listener_missing_topic (topicName meta))
       \<and> calls (snd (explorer_onModuleInit options (\<lparr>instance_of = Some inst, metadata_of = Some meta\<rparr> # rest) w))
          = calls w @ [TopicExists (topicName meta)]
       \<and> fst (onModuleInit options cn meta w) = Inl (listener_missing_topic (topicName meta))
       \<and> calls (snd (onModuleInit options cn meta w)) = calls w @ [TopicExists (topicName meta)]
       \<and> fst (getTopic options (topicName meta) w) = Inl (publisher_missing_topic (topicName meta))
       \<and> calls (snd (getTopic options (topicName meta) w)) = calls w @ [TopicExists (topicName meta)]
       \<and> fst (dispatchEvent options (topicName meta) payload opts w)
          = Inl (publisher_missing_topic (topicName meta))
       \<and> calls (snd (dispatchEvent options (topicName meta) payload opts w))
          = calls w @ [TopicExists (topicName meta)]
       \<and> message (normalizeError (listener_missing_topic (topicName meta)))
          = ''Topic '' @ [CHR 0x27] @ topicName meta @ [CHR 0x27]
            @ '' does not exist and auto-creation is disabled. Cannot start listener.''
       \<and> message (normalizeError (publisher_missing_topic (topicName meta)))
          = ''Topic '' @ [CHR 0x27] @ topicName meta @ [CHR 0x27]
            @ '' does not exist and auto-creation is disabled.''"
proof (cases "truthy_bool (autoCreateTopics options)")
  case True
  from True getOrCreateTopic_absent [OF assms, of options] getTopic_absent [OF assms, of options]
    onModuleInit_creates_topic [OF assms True, of cn]
  show ?thesis
    by (simp split: option.splits)
next
  case False
  have m: "message (normalizeError (listener_missing_topic (topicName meta)))
          = ''Topic '' @ [CHR 0x27] @ topicName meta @ [CHR 0x27]
            @ '' does not exist and auto-creation is disabled. Cannot start listener.''"
    "message (normalizeError (publisher_missing_topic (topicName meta)))
          = ''Topic '' @ [CHR 0x27] @ topicName meta @ [CHR 0x27]
            @ '' does not exist and auto-creation is disabled.''"
    by (simp_all add: listener_missing_topic_def publisher_missing_topic_def new_Error_def)
  from False getOrCreateTopic_absent [OF assms, of options] getTopic_absent [OF assms, of options]
    setupHandler_missing_topic [OF assms False, of inst]
    explorer_onModuleInit_missing_topic [OF assms False, of inst rest]
    onModuleInit_missing_topic [OF assms False, of cn]
    dispatchEvent_missing_topic [OF assms False, of payload opts] m
  show ?thesis
    by simp
qed

theorem ensureTopic_absent_witness:
  "topicName user_created_listener \<notin> set (topics empty_backend)
    \<and> fst (getOrCreateTopic mockOptions user_created_listener empty_backend) = Inr ''user.created''
    \<and> calls (snd (getOrCreateTopic mockOptions user_created_listener empty_backend))
        = [TopicExists ''user.created'', TopicCreate ''user.created'']
    \<and> ''user.created'' \<in> set (topics (snd (getOrCreateTopic mockOptions user_created_listener empty_backend)))
    \<and> fst (getOrCreateTopic (mockOptions\<lparr>autoCreateTopics := Val False\<rparr>) user_created_listener empty_backend)
        = Inl (listener_missing_topic ''user.created'')
    \<and> calls (snd (getOrCreateTopic (mockOptions\<lparr>autoCreateTopics := Val False\<rparr>) user_created_listener empty_backend))
        = [TopicExists ''user.created'']
    \<and> fst (dispatchEvent (mockOptions\<lparr>autoCreateTopics := Val False\<rparr>) ''user.created'' order_1 None empty_backend)
        = Inl (publisher_missing_topic ''user.created'')"
proof -
  have a: "topicName user_created_listener \<notin> set (topics empty_backend)"
    by (simp add: empty_backend_def)
  have f: "faults empty_backend (TopicExists (topicName user_created_listener)) = None"
    "faults empty_backend (TopicCreate (topicName user_created_listener)) = None"
    by (simp_all add: empty_backend_def)
  have n: "topicName user_created_listener = ''user.created''"
    by (simp add: user_created_listener_def)
  have c: "calls empty_backend = []"
    by (simp add: empty_backend_def)
  have t: "truthy_bool (autoCreateTopics mockOptions)"
    "\<not> truthy_bool (autoCreateTopics (mockOptions\<lparr>autoCreateTopics := Val False\<rparr>))"
    by (simp_all add: mockOptions_def truthy_bool_def)
  from ensureTopic_absent [OF a f(1), of mockOptions "''TestListener''"]
    ensureTopic_absent [OF a f(1), of "mockOptions\<lparr>autoCreateTopics := Val False\<rparr>"
      "''TestListener''" "''TestListener''" "[]" order_1 None]
    a f(2) t
  show ?thesis
    unfolding n c by simp
qed

section \<open>Publishing\<close>

lemma getTopic_existing:
  assumes "name \<in> set (topics w)" and "faults w (TopicExists name) = None"
  shows "getTopic options name w = (Inr name, w\<lparr>calls := calls w @ [TopicExists name]\<rparr>)"
  using assms by (simp add: getTopic_def io_defs)

lemma dispatchEvent_existing:
  assumes "name \<in> set (topics w)" and "faults w (TopicExists name) = None"
  shows "dispatchEvent options name payload opts w =
    (let req = \<lparr>pub_data = Buffer_from (JSON_stringify payload), pub_attributes = dispatch_attributes opts\<rparr>;
         dispatching = \<lparr>entry_level = LOG, entry_message = ''Dispatching event...'',
           entry_params = [Str ''PubsubPublisher'', Meta (logObject name payload opts)]\<rparr>;
         w1 = w\<lparr>calls := calls w @ [TopicExists name, PublishMessage name req]\<rparr>
     in case faults w (PublishMessage name req) of
          None \<Rightarrow>
            (Inr (assign_id w (length (published w))),
             w1\<lparr>published := published w @ [(name, req, assign_id w (length (published w)))],
                world_log := world_log w @ [dispatching,
                  \<lparr>entry_level = LOG, entry_message = ''Event dispatched successfully'',
                   entry_params = [Str ''PubsubPublisher'',
                     Meta ((logObject name payload opts)
                       \<lparr>meta_messageId := Some (assign_id w (length (published w)))\<rparr>)]\<rparr>]\<rparr>)
        | Some e \<Rightarrow>
            (Inl e,
             w1\<lparr>world_log := world_log w @ [dispatching,
                  \<lparr>entry_level = ERROR, entry_message = ''Failed to dispatch event'',
                   entry_params = [stack_param (normalizeError e), Str ''PubsubPublisher'',
                     Meta (logObject name payload opts)]\<rparr>]\<rparr>))"
  using assms
  by (simp add: dispatchEvent_def getTopic_def io_defs Let_def split: option.splits)

text \<open>
  C9. \<^verbatim>\<open>dispatchEvent\<close> on a topic that exists, with the backend answering the existence
  check: after the check it makes one publish call, whose data is the bytes of the JSON
  text of the payload and whose attributes are the caller's, or none when the caller gave
  none. When the backend accepts the message, the call resolves with the identifier the
  backend assigned; when the backend rejects it, the call rejects with the backend's
  error, after logging an error line that carries the normalized stack.
\<close>

theorem dispatchEvent_publishes_once:
  assumes "name \<in> set (topics w)" and "faults w (TopicExists name) = None"
  shows "calls (snd (dispatchEvent options name payload opts w))
      = calls w @ [TopicExists name,
          PublishMessage name
            \<lparr>pub_data = Buffer_from (JSON_stringify payload), pub_attributes = dispatch_attributes opts\<rparr>]
    \<and> dispatch_attributes None = []
    \<and> dispatch_attributes (Some \<lparr>attributes = None, logPayload = lp\<rparr>) = []
    \<and> dispatch_attributes (Some \<lparr>attributes = Some attrs, logPayload = lp\<rparr>) = attrs
    \<and> (case faults w (PublishMessage name
            \<lparr>pub_data = Buffer_from (JSON_stringify payload), pub_attributes = dispatch_attributes opts\<rparr>) of
          None \<Rightarrow>
            fst (dispatchEvent options name payload opts w) = Inr (assign_id w (length (published w)))
            \<and> published (snd (dispatchEvent options name payload opts w))
              = published w @ [(name,
                  \<lparr>pub_data = Buffer_from (JSON_stringify payload), pub_attributes = dispatch_attributes opts\<rparr>,
                  assign_id w (length (published w)))]
        | Some e \<Rightarrow>
            fst (dispatchEvent options name payload opts w) = Inl e
            \<and> published (snd (dispatchEvent options name payload opts w)) = published w
            \<and> last (world_log (snd (dispatchEvent options name payload opts w)))
              = \<lparr>entry_level = ERROR, entry_message = ''Failed to dispatch event'',
                 entry_params = [stack_param (normalizeError e), Str ''PubsubPublisher'',
                   Meta (logObject name payload opts)]\<rparr>)"
  unfolding dispatchEvent_existing [OF assms]
  by (simp add: Let_def dispatch_attributes_def split: option.splits)

theorem dispatchEvent_publishes_once_witness:
  "''orders'' \<in> set (topics backend_with_orders)
    \<and> fst (dispatchEvent mockOptions ''orders'' order_1 None backend_with_orders) = Inr ''message-123''
    \<and> calls (snd (dispatchEvent mockOptions ''orders'' order_1 None backend_with_orders))
      = [TopicExists ''orders'',
         PublishMessage ''orders'' \<lparr>pub_data = Buffer_from (JSON_stringify order_1), pub_attributes = []\<rparr>]
    \<and> fst (dispatchEvent mockOptions ''orders'' order_1 None
          (backend_with_orders\<lparr>faults := (\<lambda>c. case c of PublishMessage t r \<Rightarrow> Some publishing_failed | _ \<Rightarrow> None)\<rparr>))
      = Inl publishing_failed
    \<and> last (world_log (snd (dispatchEvent mockOptions ''orders'' order_1 None
          (backend_with_orders\<lparr>faults := (\<lambda>c. case c of PublishMessage t r \<Rightarrow> Some publishing_failed | _ \<Rightarrow> None)\<rparr>))))
      = \<lparr>entry_level = ERROR, entry_message = ''Failed to dispatch event'',
         entry_params = [Str ''Error: Publishing failed'', Str ''PubsubPublisher'',
           Meta (logObject ''orders'' order_1 None)]\<rparr>"
proof -
  let ?failing = "backend_with_orders\<lparr>faults := (\<lambda>c. case c of PublishMessage t r \<Rightarrow> Some publishing_failed | _ \<Rightarrow> None)\<rparr>"
  have t: "''orders'' \<in> set (topics backend_with_orders)" "''orders'' \<in> set (topics ?failing)"
    by (simp_all add: backend_with_orders_def empty_backend_def)
  have f: "faults backend_with_orders (TopicExists ''orders'') = None"
    "faults ?failing (TopicExists ''orders'') = None"
    by (simp_all add: backend_with_orders_def empty_backend_def)
  have g: "faults backend_with_orders c = None" "calls backend_with_orders = []"
    "published backend_with_orders = []" "assign_id backend_with_orders n = ''message-123''" for c n
    by (simp_all add: backend_with_orders_def empty_backend_def)
  have s: "stack_param (normalizeError publishing_failed) = Str ''Error: Publishing failed''"
    by (simp add: publishing_failed_def new_Error_def stack_param_def)
  from dispatchEvent_publishes_once [OF t(1) f(1), of mockOptions order_1 None]
    dispatchEvent_publishes_once [OF t(2) f(2), of mockOptions order_1 None] t(1) s
  show ?thesis
    by (simp add: dispatch_attributes_def g)
qed

section \<open>Decoding what the publisher encoded\<close>

subsection \<open>The text of a value is read back as its tokens\<close>

lemma of_char_digit_char: "d < 10 \<Longrightarrow> (of_char (digit_char d) :: nat) = 48 + d"
  by (simp add: digit_char_def)

lemma is_digit_digit_char [simp]: "d < 10 \<Longrightarrow> is_digit (digit_char d)"
  by (simp add: is_digit_def of_char_digit_char)

lemma digit_val_digit_char [simp]: "d < 10 \<Longrightarrow> digit_val (digit_char d) = d"
  by (simp add: digit_val_def of_char_digit_char)






lemma nat_digits_nonempty [simp]: "nat_digits n \<noteq> []"
  by (subst nat_digits.simps) simp














lemma not_continues_punctuation [simp]:
  "\<not> continues_number []"
  "\<not> continues_number (CHR '','' # s)"
  "\<not> continues_number (CHR '']'' # s)"
  "\<not> continues_number (CHR ''}'' # s)"
  by (simp_all add: continues_number_def is_digit_def)




subsection \<open>The tokens of a value are read back as the value\<close>


lemma step_value_token:
  assumes "m = MValue \<or> m = MValueOrClose" and "t \<noteq> RBracket"
  shows "step (Await m st) t = value_token st t"
  using assms by auto







end
